theory Spec2Isabelle
  imports Complex_Main "HOL-Library.Multiset" "HOL-Library.AList" "HOL-Library.Sublist"
begin

section \<open>Data model of \<open>RetirementForm.jsx\<close>\<close>

text \<open>
  The component keeps its inputs in one \<open>formData\<close> object. The number inputs hold
  strings; the functions read them through \<open>parseInt\<close> or \<open>parseFloat\<close>, and the
  accumulation subtracts the two age strings as they are. The
  selects (fund choices, drawdown type, state pension) offer a closed list of options and
  are datatypes here. The record is polymorphic in what the whole-number fields (\<open>'i\<close>)
  and the decimal fields (\<open>'r\<close>) hold: strings for the raw form the validator reads,
  \<open>int\<close> and \<open>real\<close> for the parsed values the two simulators compute with. The
  array \<open>funds\<close> holds one fund choice for each pot: \<open>handleChange\<close> resizes it whenever
  \<open>numFunds\<close> changes.

  JavaScript numbers are IEEE doubles; the simulators are modelled over the reals, so
  rounding, overflow to \<open>Infinity\<close> and \<open>NaN\<close> inside the arithmetic are outside the
  model. \<open>NaN\<close> and \<open>undefined\<close> are modelled where the code tests for them: the
  parse results in the validator and the starting pot of the decumulation.
\<close>

datatype fund =
  FutureAdvantage1 | FutureAdvantage2 | FutureAdvantage3 | FutureAdvantage4 | FutureAdvantage5

datatype drawdownKind = Percentage | Fixed | InitialPot

datatype statePension = No | YesStandard | YesCustom

record ('i, 'r) formData =
  ageToLowRiskFund :: 'i
  numFunds :: 'i
  funds :: "fund list"
  age :: 'i
  salary :: 'r
  currentPot :: 'r
  contributionRate :: 'r
  retirementAge :: 'i
  fundSelection :: fund
  drawdownType :: drawdownKind
  drawdownPercentage :: 'r
  drawdownFixed :: 'r
  drawdownInitialPotPercentage :: 'r
  inflationRate :: 'r
  includeStatePension :: statePension
  customStatePensionAnnual :: 'r

type_synonym rawForm = "(string, string) formData"
type_synonym planInput = "(int, real) formData"

record fundProfile =
  return :: real
  volatility :: real

fun fundData :: "fund \<Rightarrow> fundProfile" where
  "fundData FutureAdvantage1 = \<lparr>return = 0.025, volatility = 0.05\<rparr>"
| "fundData FutureAdvantage2 = \<lparr>return = 0.03, volatility = 0.0556\<rparr>"
| "fundData FutureAdvantage3 = \<lparr>return = 0.035, volatility = 0.0799\<rparr>"
| "fundData FutureAdvantage4 = \<lparr>return = 0.045, volatility = 0.1151\<rparr>"
| "fundData FutureAdvantage5 = \<lparr>return = 0.053, volatility = 0.1464\<rparr>"

definition STANDARD_STATE_PENSION_ANNUAL :: real where
  "STANDARD_STATE_PENSION_ANNUAL = 11960"

section \<open>The input validator\<close>

text \<open>
  \<open>validateInputs\<close> reads the raw strings. \<open>parseFloat\<close> and \<open>parseInt\<close> are JavaScript
  built-ins, taken as parameters; \<open>None\<close> stands for \<open>NaN\<close>. A field is
  a triple of its name, its label and its value; the array \<open>fields\<close> is \<open>formFields\<close>
  here (every record already has a constant \<open>fields\<close>). \<open>newErrors\<close> is an object used as a map
  from field name to message: an association list in insertion order.
\<close>

type_synonym field = "string \<times> string \<times> string"
type_synonym errors = "(string \<times> string) list"

definition formFields :: "rawForm \<Rightarrow> field list" where
  "formFields fd =
     [(''age'', ''Current Age'', age fd),
      (''salary'', ''Salary'', salary fd),
      (''currentPot'', ''Current Pot'', currentPot fd),
      (''contributionRate'', ''Contribution Rate'', contributionRate fd),
      (''retirementAge'', ''Retirement Age'', retirementAge fd),
      (''ageToLowRiskFund'', ''Age to Low Risk Fund'', ageToLowRiskFund fd),
      (''inflationRate'', ''Inflation Rate'', inflationRate fd),
      (''numFunds'', ''Number of Funds'', numFunds fd)]
     @ (case drawdownType fd of
          Percentage \<Rightarrow>
            [(''drawdownPercentage'', ''Drawdown Percentage'', drawdownPercentage fd)]
        | Fixed \<Rightarrow>
            [(''drawdownFixed'', ''Fixed Drawdown Amount'', drawdownFixed fd)]
        | InitialPot \<Rightarrow>
            [(''drawdownInitialPotPercentage'', ''Initial Pot Drawdown Percentage'',
              drawdownInitialPotPercentage fd)])
     @ (if includeStatePension fd = YesCustom
        then [(''customStatePensionAnnual'', ''Custom State Pension Annual Amount'',
               customStatePensionAnnual fd)]
        else [])"

text \<open>\<open>!field.value || isNaN(parseFloat(field.value))\<close>: the empty string is falsy.\<close>

definition invalidNumber :: "(string \<Rightarrow> real option) \<Rightarrow> field \<Rightarrow> bool" where
  "invalidNumber parseFloat f = (case f of (name, label, v) \<Rightarrow> v = [] \<or> parseFloat v = None)"

definition numberError :: "field \<Rightarrow> string \<times> string" where
  "numberError f = (case f of (name, label, v) \<Rightarrow> (name, label @ '' must be a valid number.''))"

definition checkNumbers :: "(string \<Rightarrow> real option) \<Rightarrow> field list \<Rightarrow> errors" where
  "checkNumbers parseFloat fs =
     fold (\<lambda>f newErrors.
             if invalidNumber parseFloat f
             then AList.update (fst (numberError f)) (snd (numberError f)) newErrors
             else newErrors)
          fs []"

text \<open>Comparisons of parse results: every comparison with \<open>NaN\<close> is false.\<close>

definition lt :: "'a::linorder option \<Rightarrow> 'a option \<Rightarrow> bool" where
  "lt a b = (case a of None \<Rightarrow> False | Some x \<Rightarrow> (case b of None \<Rightarrow> False | Some y \<Rightarrow> x < y))"

definition le :: "'a::linorder option \<Rightarrow> 'a option \<Rightarrow> bool" where
  "le a b = (case a of None \<Rightarrow> False | Some x \<Rightarrow> (case b of None \<Rightarrow> False | Some y \<Rightarrow> x \<le> y))"

text \<open>
  The range and logic checks. Each assigns its own key at most once, so the object they
  build is the list of the entries of the checks that fire, in the order of the checks.
\<close>

definition rangeChecks ::
  "(string \<Rightarrow> real option) \<Rightarrow> (string \<Rightarrow> int option) \<Rightarrow> rawForm \<Rightarrow> errors" where
  "rangeChecks parseFloat parseInt fd =
     (let parsedAge = parseInt (age fd);
          parsedRetirementAge = parseInt (retirementAge fd);
          parsedSalary = parseFloat (salary fd);
          parsedCurrentPot = parseFloat (currentPot fd);
          parsedContributionRate = parseFloat (contributionRate fd);
          parsedDrawdownPercentage = parseFloat (drawdownPercentage fd);
          parsedDrawdownFixed = parseFloat (drawdownFixed fd);
          parsedDrawdownInitialPotPercentage = parseFloat (drawdownInitialPotPercentage fd);
          parsedAgeToLowRiskFund = parseInt (ageToLowRiskFund fd);
          parsedInflationRate = parseFloat (inflationRate fd);
          parsedNumFunds = parseInt (numFunds fd);
          parsedCustomStatePensionAnnual = parseFloat (customStatePensionAnnual fd)
      in
        (if le parsedAge (Some 0)
         then [(''age'', ''Current Age must be positive.'')] else [])
      @ (if le parsedRetirementAge parsedAge
         then [(''retirementAge'', ''Retirement Age must be greater than Current Age.'')]
         else [])
      @ (if le parsedSalary (Some 0)
         then [(''salary'', ''Salary must be positive.'')] else [])
      @ (if lt parsedCurrentPot (Some 0)
         then [(''currentPot'', ''Current Pot cannot be negative.'')] else [])
      @ (if le parsedContributionRate (Some 0) \<or> lt (Some 100) parsedContributionRate
         then [(''contributionRate'', ''Contribution Rate must be between 0 and 100%.'')]
         else [])
      @ (if drawdownType fd = Percentage
            \<and> (le parsedDrawdownPercentage (Some 0) \<or> lt (Some 100) parsedDrawdownPercentage)
         then [(''drawdownPercentage'', ''Drawdown Percentage must be between 0 and 100%.'')]
         else [])
      @ (if drawdownType fd = Fixed \<and> le parsedDrawdownFixed (Some 0)
         then [(''drawdownFixed'', ''Fixed Drawdown Amount must be positive.'')] else [])
      @ (if drawdownType fd = InitialPot
            \<and> (le parsedDrawdownInitialPotPercentage (Some 0)
               \<or> lt (Some 100) parsedDrawdownInitialPotPercentage)
         then [(''drawdownInitialPotPercentage'',
                ''Initial Pot Drawdown Percentage must be between 0 and 100%.'')]
         else [])
      @ (if lt parsedAgeToLowRiskFund parsedRetirementAge
         then [(''ageToLowRiskFund'',
                ''Age to Low Risk Fund must be at least the Retirement Age.'')]
         else [])
      @ (if lt parsedInflationRate (Some 0) \<or> lt (Some 20) parsedInflationRate
         then [(''inflationRate'', ''Inflation Rate must be between 0% and 20%.'')] else [])
      @ (if lt parsedNumFunds (Some 1) \<or> lt (Some 5) parsedNumFunds
         then [(''numFunds'', ''Number of Funds must be between 1 and 5.'')] else [])
      @ (if includeStatePension fd = YesCustom \<and> le parsedCustomStatePensionAnnual (Some 0)
         then [(''customStatePensionAnnual'',
                ''Custom State Pension Annual Amount must be positive.'')]
         else []))"

text \<open>
  The result is the returned boolean together with the object passed to \<open>setErrors\<close>.
\<close>

definition validateInputs ::
  "(string \<Rightarrow> real option) \<Rightarrow> (string \<Rightarrow> int option) \<Rightarrow> rawForm \<Rightarrow> bool \<times> errors" where
  "validateInputs parseFloat parseInt fd =
     (if length (checkNumbers parseFloat (formFields fd)) > 0
      then (False, checkNumbers parseFloat (formFields fd))
      else if length (rangeChecks parseFloat parseInt fd) > 0
      then (False, rangeChecks parseFloat parseInt fd)
      else (True, []))"

text \<open>
  The simulators parse the form again. \<open>parsesTo parseFloat parseInt raw fd\<close> says that
  \<open>fd\<close> holds the numbers these parse calls yield on the raw form \<open>raw\<close> (a drawdown
  parameter and the custom pension amount are parsed only under their own policy).
  \<open>validPlan\<close> is what the range checks leave of the parsed numbers.
\<close>

definition parsesTo ::
  "(string \<Rightarrow> real option) \<Rightarrow> (string \<Rightarrow> int option) \<Rightarrow> rawForm \<Rightarrow> planInput \<Rightarrow> bool" where
  "parsesTo parseFloat parseInt raw fd \<longleftrightarrow>
     parseInt (age raw) = Some (age fd)
   \<and> parseInt (retirementAge raw) = Some (retirementAge fd)
   \<and> parseInt (ageToLowRiskFund raw) = Some (ageToLowRiskFund fd)
   \<and> parseInt (numFunds raw) = Some (numFunds fd)
   \<and> parseFloat (salary raw) = Some (salary fd)
   \<and> parseFloat (currentPot raw) = Some (currentPot fd)
   \<and> parseFloat (contributionRate raw) = Some (contributionRate fd)
   \<and> parseFloat (inflationRate raw) = Some (inflationRate fd)
   \<and> funds fd = funds raw
   \<and> fundSelection fd = fundSelection raw
   \<and> drawdownType fd = drawdownType raw
   \<and> includeStatePension fd = includeStatePension raw
   \<and> (case drawdownType raw of
        Percentage \<Rightarrow> parseFloat (drawdownPercentage raw) = Some (drawdownPercentage fd)
      | Fixed \<Rightarrow> parseFloat (drawdownFixed raw) = Some (drawdownFixed fd)
      | InitialPot \<Rightarrow>
          parseFloat (drawdownInitialPotPercentage raw) = Some (drawdownInitialPotPercentage fd))
   \<and> (case includeStatePension raw of
        YesCustom \<Rightarrow> parseFloat (customStatePensionAnnual raw) = Some (customStatePensionAnnual fd)
      | _ \<Rightarrow> True)"

definition validPlan :: "planInput \<Rightarrow> bool" where
  "validPlan fd \<longleftrightarrow>
     0 < age fd
   \<and> age fd < retirementAge fd
   \<and> 0 < salary fd
   \<and> 0 \<le> currentPot fd
   \<and> 0 < contributionRate fd \<and> contributionRate fd \<le> 100
   \<and> (case drawdownType fd of
        Percentage \<Rightarrow> 0 < drawdownPercentage fd \<and> drawdownPercentage fd \<le> 100
      | Fixed \<Rightarrow> 0 < drawdownFixed fd
      | InitialPot \<Rightarrow>
          0 < drawdownInitialPotPercentage fd \<and> drawdownInitialPotPercentage fd \<le> 100)
   \<and> retirementAge fd \<le> ageToLowRiskFund fd
   \<and> 0 \<le> inflationRate fd \<and> inflationRate fd \<le> 20
   \<and> 1 \<le> numFunds fd \<and> numFunds fd \<le> 5
   \<and> (case includeStatePension fd of
        YesCustom \<Rightarrow> 0 < customStatePensionAnnual fd
      | _ \<Rightarrow> True)"

text \<open>
  To run the validator on concrete forms: a stand-in for both built-ins on strings of
  decimal digits, where \<open>parseFloat\<close> and \<open>parseInt\<close> return the same number. It
  answers \<open>NaN\<close> on every other string; below it is applied to digit strings, to the
  empty string and to \<open>abc\<close>, on which the built-ins answer the same.
\<close>

definition digitValue :: "char \<Rightarrow> nat option" where
  "digitValue c =
     (if c \<in> set ''0123456789''
      then Some (length (takeWhile (\<lambda>d. d \<noteq> c) ''0123456789''))
      else None)"

fun digitsValue :: "nat \<Rightarrow> string \<Rightarrow> nat option" where
  "digitsValue acc [] = Some acc"
| "digitsValue acc (c # cs) =
     (case digitValue c of None \<Rightarrow> None | Some d \<Rightarrow> digitsValue (10 * acc + d) cs)"

definition parseDigits :: "string \<Rightarrow> nat option" where
  "parseDigits str = (if str = [] then None else digitsValue 0 str)"

definition digitsParseFloat :: "string \<Rightarrow> real option" where
  "digitsParseFloat str = map_option real (parseDigits str)"

definition digitsParseInt :: "string \<Rightarrow> int option" where
  "digitsParseInt str = map_option int (parseDigits str)"

definition exampleRaw :: rawForm where
  "exampleRaw =
     \<lparr>ageToLowRiskFund = ''75'', numFunds = ''3'',
      funds = [FutureAdvantage1, FutureAdvantage3, FutureAdvantage5],
      age = ''30'', salary = ''30000'', currentPot = ''10000'', contributionRate = ''10'',
      retirementAge = ''65'', fundSelection = FutureAdvantage5,
      drawdownType = Percentage, drawdownPercentage = ''4'', drawdownFixed = [],
      drawdownInitialPotPercentage = [], inflationRate = ''2'',
      includeStatePension = YesStandard, customStatePensionAnnual = []\<rparr>"

text \<open>The same form with retirement, and the switch to low risk, at 100.\<close>

definition lateRaw :: rawForm where
  "lateRaw = exampleRaw\<lparr>retirementAge := ''100'', ageToLowRiskFund := ''100''\<rparr>"

text \<open>
  A second stand-in reads decimal strings: digits, optionally followed by a point and
  more digits. On these \<open>parseFloat\<close> and the coercion to a number give the decimal
  value and \<open>parseInt\<close> gives the whole part; the coercion of the empty string is 0.
  It answers \<open>NaN\<close> on every other string and is applied below to such decimal strings
  only.
\<close>

definition decimalParts :: "string \<Rightarrow> (nat \<times> nat \<times> nat) option" where
  "decimalParts str =
     (let whole = takeWhile (\<lambda>c. c \<noteq> CHR ''.'') str;
          fraction = drop (length whole + 1) str
      in case parseDigits whole of
           None \<Rightarrow> None
         | Some w \<Rightarrow>
             (case digitsValue 0 fraction of
                None \<Rightarrow> None
              | Some f \<Rightarrow> Some (w, f, length fraction)))"

definition decimalParseFloat :: "string \<Rightarrow> real option" where
  "decimalParseFloat str =
     map_option (\<lambda>(w, f, n). real w + real f / 10 ^ n) (decimalParts str)"


definition decimalNumber :: "string \<Rightarrow> real option" where
  "decimalNumber str = (if str = [] then Some 0 else decimalParseFloat str)"


definition largePotRaw :: rawForm where
  "largePotRaw = exampleRaw\<lparr>age := ''63'', currentPot := ''1000000''\<rparr>"

definition smallPotRaw :: rawForm where
  "smallPotRaw = exampleRaw\<lparr>age := ''63''\<rparr>"

section \<open>The accumulation simulator\<close>

text \<open>
  \<open>simulateAccumulation\<close> runs 1000 paths. \<open>Math.random()\<close> is an input that is not in
  \<open>formData\<close>: the model takes the draws as a parameter \<open>U\<close>, where \<open>U i year\<close> is the
  value \<open>Math.random()\<close> returns in path \<open>i\<close> for year \<open>year\<close>.

  \<open>years\<close> is \<open>formData.retirementAge - formData.age\<close>: the subtraction turns each of
  the two strings into a number by JavaScript's coercion, not by \<open>parseInt\<close>. The
  coercion is a third built-in taken as a parameter, \<open>toNumber\<close>, with \<open>None\<close> for
  \<open>NaN\<close>; \<open>years\<close> is \<open>NaN\<close> when either age is, and need not be a whole number. The
  function therefore takes the raw form, for the two ages, next to the numbers \<open>fd\<close>
  that its \<open>parseFloat\<close> calls yield.
\<close>

definition years :: "(string \<Rightarrow> real option) \<Rightarrow> rawForm \<Rightarrow> real option" where
  "years toNumber raw =
     (case toNumber (retirementAge raw) of
        None \<Rightarrow> None
      | Some r \<Rightarrow> (case toNumber (age raw) of None \<Rightarrow> None | Some a \<Rightarrow> Some (r - a)))"

definition simulations :: nat where
  "simulations = 1000"

text \<open>
  The inner loop \<open>for (let year = 0; year < years; year++)\<close> with its three mutable
  variables \<open>pot\<close>, \<open>salary\<close> (here \<open>sal\<close>, since \<open>salary\<close> is the form's field) and
  \<open>yearlyBalances\<close>; \<open>yrs\<close> is the value of \<open>years\<close>. The comparison with \<open>NaN\<close> is
  false, and the loop runs once for every whole number below \<open>years\<close>: \<open>loopCount\<close>
  times.
\<close>

definition loopCount :: "real option \<Rightarrow> nat" where
  "loopCount yrs = (case yrs of None \<Rightarrow> 0 | Some y \<Rightarrow> nat \<lceil>y\<rceil>)"

function yearLoop ::
  "planInput \<Rightarrow> real option \<Rightarrow> (nat \<Rightarrow> real) \<Rightarrow> nat \<Rightarrow> real \<Rightarrow> real \<Rightarrow> real list \<Rightarrow> real list" where
  "yearLoop fd yrs u year pot sal yearlyBalances =
     (if lt (Some (real year)) yrs then
        (let contribution = sal * (contributionRate fd / 100);
             annualReturn = return (fundData (fundSelection fd))
                            + volatility (fundData (fundSelection fd)) * (u year * 2 - 1);
             pot' = (pot + contribution) * (1 + annualReturn)
         in yearLoop fd yrs u (Suc year) pot' (sal * (1 + inflationRate fd / 100))
              (yearlyBalances @ [pot']))
      else yearlyBalances)"
  by pat_completeness auto
termination
proof (relation "measure (\<lambda>(fd, yrs, u, year, pot, sal, yb). loopCount yrs - year)")
  show "wf (measure (\<lambda>(fd, yrs, u, year, pot, sal, yb). loopCount yrs - year))"
    by simp
next
  fix fd :: planInput and yrs :: "real option" and u :: "nat \<Rightarrow> real" and year :: nat
    and pot sal :: real and yearlyBalances :: "real list" and x xa xb
  assume "lt (Some (real year)) yrs"
  then obtain y where y: "yrs = Some y" "real year < y"
    by (auto simp: lt_def split: option.splits)
  then have "int year < \<lceil>y\<rceil>"
    by linarith
  then have "year < loopCount yrs"
    by (simp add: loopCount_def y(1) zless_nat_eq_int_zless)
  then show "((fd, yrs, u, Suc year, xb, sal * (1 + inflationRate fd / 100),
               yearlyBalances @ [xb]),
              (fd, yrs, u, year, pot, sal, yearlyBalances))
             \<in> measure (\<lambda>(fd, yrs, u, year, pot, sal, yb). loopCount yrs - year)"
    by simp
qed

declare yearLoop.simps [simp del]

definition simulatePath ::
  "planInput \<Rightarrow> real option \<Rightarrow> (nat \<Rightarrow> nat \<Rightarrow> real) \<Rightarrow> nat \<Rightarrow> real list" where
  "simulatePath fd yrs U i = yearLoop fd yrs (U i) 0 (currentPot fd) (salary fd) []"

definition results ::
  "planInput \<Rightarrow> real option \<Rightarrow> (nat \<Rightarrow> nat \<Rightarrow> real) \<Rightarrow> real list list" where
  "results fd yrs U = map (simulatePath fd yrs U) [0..<simulations]"

text \<open>
  \<open>Array.from({ length: years }, ...)\<close> builds an array of \<open>ToLength(years)\<close> entries:
  none for \<open>NaN\<close> and for a negative number, and the whole part of \<open>years\<close> otherwise.
\<close>

definition arrayLength :: "real option \<Rightarrow> nat" where
  "arrayLength yrs = (case yrs of None \<Rightarrow> 0 | Some y \<Rightarrow> nat \<lfloor>y\<rfloor>)"

definition percentiles ::
  "planInput \<Rightarrow> real option \<Rightarrow> (nat \<Rightarrow> nat \<Rightarrow> real) \<Rightarrow> real list list" where
  "percentiles fd yrs U =
     map (\<lambda>i. sort (map (\<lambda>run. run ! i) (results fd yrs U))) [0..<arrayLength yrs]"

definition getPercentile :: "real list \<Rightarrow> real \<Rightarrow> real" where
  "getPercentile data percentile = data ! nat \<lfloor>percentile * real (length data)\<rfloor>"

record accumulation =
  p25 :: "real list"
  p50 :: "real list"
  p75 :: "real list"

definition simulateAccumulation ::
  "(string \<Rightarrow> real option) \<Rightarrow> rawForm \<Rightarrow> planInput \<Rightarrow> (nat \<Rightarrow> nat \<Rightarrow> real) \<Rightarrow> accumulation" where
  "simulateAccumulation toNumber raw fd U =
     \<lparr>p25 = map (\<lambda>row. getPercentile row 0.25) (percentiles fd (years toNumber raw) U),
      p50 = map (\<lambda>row. getPercentile row 0.5) (percentiles fd (years toNumber raw) U),
      p75 = map (\<lambda>row. getPercentile row 0.75) (percentiles fd (years toNumber raw) U)\<rparr>"

text \<open>The values of all paths at year index \<open>i\<close>, in path order.\<close>

definition yearValues ::
  "planInput \<Rightarrow> real option \<Rightarrow> (nat \<Rightarrow> nat \<Rightarrow> real) \<Rightarrow> nat \<Rightarrow> real list" where
  "yearValues fd yrs U i = map (\<lambda>j. simulatePath fd yrs U j ! i) [0..<simulations]"

text \<open>A form used to exercise the theorems: age 30, retirement at 65, three funds.\<close>

definition exampleForm :: planInput where
  "exampleForm =
     \<lparr>ageToLowRiskFund = 75, numFunds = 3,
      funds = [FutureAdvantage1, FutureAdvantage3, FutureAdvantage5],
      age = 30, salary = 30000, currentPot = 10000, contributionRate = 10,
      retirementAge = 65, fundSelection = FutureAdvantage5,
      drawdownType = Percentage, drawdownPercentage = 4, drawdownFixed = 0,
      drawdownInitialPotPercentage = 0, inflationRate = 2,
      includeStatePension = YesStandard, customStatePensionAnnual = 0\<rparr>"

definition halfDraws :: "nat \<Rightarrow> nat \<Rightarrow> real" where
  "halfDraws i year = 1 / 2"

definition quarterDraws :: "nat \<Rightarrow> nat \<Rightarrow> real" where
  "quarterDraws i year = 1 / 4"

definition spreadDraws :: "nat \<Rightarrow> nat \<Rightarrow> real" where
  "spreadDraws i year = real i / 1000"

text \<open>
  Variants of the form: two years before retirement with a large pot and with the pot
  of the example, retirement at 100, the switch to low risk at the retirement age, and
  a fixed monthly drawdown of 50000.
\<close>

definition largePotForm :: planInput where
  "largePotForm = exampleForm\<lparr>formData.age := 63, currentPot := 1000000\<rparr>"

definition smallPotForm :: planInput where
  "smallPotForm = exampleForm\<lparr>formData.age := 63\<rparr>"

definition lateForm :: planInput where
  "lateForm = exampleForm\<lparr>retirementAge := 100, ageToLowRiskFund := 100\<rparr>"

definition earlySwitchForm :: planInput where
  "earlySwitchForm = exampleForm\<lparr>ageToLowRiskFund := 65\<rparr>"

definition fixedForm :: planInput where
  "fixedForm = exampleForm\<lparr>drawdownType := Fixed, drawdownFixed := 50000\<rparr>"

section \<open>The decumulation simulator\<close>

text \<open>
  The argument \<open>startingPot\<close> is \<open>p50[p50.length - 1]\<close> at the call site: a number, or
  \<open>undefined\<close> when \<open>p50\<close> is empty. The guard
  \<open>!startingPot || isNaN(startingPot) || startingPot <= 0\<close> is modelled on these values.
\<close>

datatype jsvalue = Undefined | NaN | Num real

definition falsy :: "jsvalue \<Rightarrow> bool" where
  "falsy v = (case v of Undefined \<Rightarrow> True | NaN \<Rightarrow> True | Num x \<Rightarrow> x = 0)"

definition isNaN :: "jsvalue \<Rightarrow> bool" where
  "isNaN v = (case v of Undefined \<Rightarrow> True | NaN \<Rightarrow> True | Num x \<Rightarrow> False)"

definition leZero :: "jsvalue \<Rightarrow> bool" where
  "leZero v = (case v of Undefined \<Rightarrow> False | NaN \<Rightarrow> False | Num x \<Rightarrow> x \<le> 0)"

text \<open>The returned object.\<close>

record decumulation =
  funds :: "real list list"
  withdrawals :: "real list"
  annualWithdrawals :: "real list"
  statePensionMonthlyValues :: "real list"
  statePensionAnnualValues :: "real list"

definition degenerate :: decumulation where
  "degenerate =
     \<lparr>funds = [replicate 12 0], withdrawals = [0], annualWithdrawals = [0],
      statePensionMonthlyValues = [0], statePensionAnnualValues = [0]\<rparr>"

text \<open>
  The mutable variables of the function: the arrays it fills and its \<open>let\<close> variables.
  Several share their name with a key of the returned object or of \<open>formData\<close>; from
  here on the plain name is the variable, and the others are written with their record
  (\<open>decumulation.withdrawals\<close>, \<open>formData.age\<close>).
\<close>

record decState =
  pots :: "real list"
  fundBalances :: "real list list"
  age :: int
  months :: nat
  withdrawals :: "real list"
  annualWithdrawals :: "real list"
  currentYearWithdrawals :: real
  movedFunds :: "bool list"
  currentDrawdownFixed :: real
  currentStatePensionAnnual :: real
  currentStatePensionMonthly :: real
  statePensionMonthlyValues :: "real list"
  statePensionAnnualValues :: "real list"

text \<open>\<open>pots.reduce((sum, pot) => sum + pot, 0)\<close>\<close>

definition total :: "real list \<Rightarrow> real" where
  "total ps = foldl (\<lambda>acc pot. acc + pot) 0 ps"

definition returns :: "planInput \<Rightarrow> real list" where
  "returns fd = map (\<lambda>fund. return (fundData fund) / 12) (formData.funds fd)"

definition drawdownRate :: "planInput \<Rightarrow> real" where
  "drawdownRate fd =
     (if drawdownType fd = Percentage then drawdownPercentage fd / 100 / 12 else 0)"

definition baseDrawdownFixed :: "planInput \<Rightarrow> real \<Rightarrow> real" where
  "baseDrawdownFixed fd startingPot =
     (if drawdownType fd = Fixed then drawdownFixed fd
      else if drawdownType fd = InitialPot
      then (startingPot * drawdownInitialPotPercentage fd / 100) / 12
      else 0)"

definition switchAge :: "planInput \<Rightarrow> int" where
  "switchAge fd = ageToLowRiskFund fd"

definition maxMonths :: "planInput \<Rightarrow> int" where
  "maxMonths fd = (100 - retirementAge fd) * 12"

definition initialStatePensionAnnual :: "planInput \<Rightarrow> real" where
  "initialStatePensionAnnual fd =
     (if includeStatePension fd = YesStandard then STANDARD_STATE_PENSION_ANNUAL
      else if includeStatePension fd = YesCustom then customStatePensionAnnual fd
      else 0)"

definition initialState :: "planInput \<Rightarrow> real \<Rightarrow> decState" where
  "initialState fd startingPot =
     \<lparr>pots = replicate (nat (numFunds fd)) (startingPot / real_of_int (numFunds fd)),
      fundBalances = replicate (nat (numFunds fd)) [],
      age = retirementAge fd,
      months = 0,
      withdrawals = [],
      annualWithdrawals = [],
      currentYearWithdrawals = 0,
      movedFunds = replicate (nat (numFunds fd - 1)) False,
      currentDrawdownFixed = baseDrawdownFixed fd startingPot,
      currentStatePensionAnnual = initialStatePensionAnnual fd,
      currentStatePensionMonthly = initialStatePensionAnnual fd / 12,
      statePensionMonthlyValues = [],
      statePensionAnnualValues = []\<rparr>"

text \<open>The loop condition.\<close>

definition running :: "planInput \<Rightarrow> decState \<Rightarrow> bool" where
  "running fd s \<longleftrightarrow> total (pots s) > 0 \<and> int (months s) < maxMonths fd"

text \<open>
  The body of the loop, one definition for each of its blocks. \<open>withdrawal\<close> is the
  value of the variable after \<open>Math.min\<close>; the later blocks receive it as \<open>w\<close>.
\<close>

definition policyWithdrawal :: "planInput \<Rightarrow> decState \<Rightarrow> real" where
  "policyWithdrawal fd s =
     (if drawdownType fd = Percentage then total (pots s) * drawdownRate fd
      else currentDrawdownFixed s)"

definition withdrawal :: "planInput \<Rightarrow> decState \<Rightarrow> real" where
  "withdrawal fd s = min (policyWithdrawal fd s) (pots s ! 0)"

definition withdraw :: "planInput \<Rightarrow> decState \<Rightarrow> decState" where
  "withdraw fd s =
     s\<lparr>pots := (pots s)[0 := pots s ! 0 - withdrawal fd s],
       currentYearWithdrawals := currentYearWithdrawals s + withdrawal fd s\<rparr>"

definition applyReturns :: "planInput \<Rightarrow> decState \<Rightarrow> decState" where
  "applyReturns fd s =
     s\<lparr>pots := fold (\<lambda>i ps. ps[i := max 0 (ps ! i * (1 + returns fd ! i))])
                   [0..<nat (numFunds fd)] (pots s)\<rparr>"

definition rebalance :: "planInput \<Rightarrow> decState \<Rightarrow> decState" where
  "rebalance fd s =
     (if months s mod 12 = 11 then
        (let activeFunds = length (filter (\<lambda>pot. pot > 0) (pots s)) in
         if activeFunds > 1 then
           (let tot = total (pots s);
                activePots = map (\<lambda>pot. if pot > 0 then tot / real activeFunds else 0) (pots s)
            in s\<lparr>pots := fold (\<lambda>i ps. ps[i := activePots ! i])
                             [0..<nat (numFunds fd)] (pots s)\<rparr>)
         else s)
      else s)"

text \<open>
  The consolidation loop updates at the first index that passes its test and breaks:
  \<open>find\<close> returns that index.
\<close>

definition consolidate :: "planInput \<Rightarrow> real \<Rightarrow> decState \<Rightarrow> decState" where
  "consolidate fd w s =
     (case find (\<lambda>i. pots s ! 0 < w * 12 \<and> \<not> movedFunds s ! i \<and> pots s ! (i + 1) > 0)
             [0..<nat (numFunds fd - 1)] of
        None \<Rightarrow> s
      | Some i \<Rightarrow>
          s\<lparr>pots := ((pots s)[0 := pots s ! 0 + pots s ! (i + 1)])[i + 1 := 0],
            movedFunds := (movedFunds s)[i := True]\<rparr>)"

definition deRisk :: "planInput \<Rightarrow> decState \<Rightarrow> decState" where
  "deRisk fd s =
     (if age s \<ge> switchAge fd \<and> list_ex (\<lambda>pot. pot > 0) (drop 1 (pots s)) then
        (let totalRemaining = total (drop 1 (pots s)) in
         s\<lparr>pots := fold (\<lambda>i ps. ps[i := 0]) [1..<nat (numFunds fd)]
                       ((pots s)[0 := pots s ! 0 + totalRemaining]),
           movedFunds := map (\<lambda>moved. True) (movedFunds s)\<rparr>)
      else s)"

definition yearEnd :: "planInput \<Rightarrow> decState \<Rightarrow> decState" where
  "yearEnd fd s =
     (if months s mod 12 = 11 then
        s\<lparr>annualWithdrawals := annualWithdrawals s @ [currentYearWithdrawals s],
          statePensionAnnualValues := statePensionAnnualValues s @ [currentStatePensionAnnual s],
          currentYearWithdrawals := 0,
          currentDrawdownFixed :=
            (if drawdownType fd = Fixed \<or> drawdownType fd = InitialPot
             then currentDrawdownFixed s * (1 + inflationRate fd / 100)
             else currentDrawdownFixed s),
          currentStatePensionMonthly :=
            (if includeStatePension fd \<noteq> No
             then currentStatePensionMonthly s * (1 + inflationRate fd / 100)
             else currentStatePensionMonthly s),
          currentStatePensionAnnual :=
            (if includeStatePension fd \<noteq> No
             then currentStatePensionAnnual s * (1 + inflationRate fd / 100)
             else currentStatePensionAnnual s)\<rparr>
      else s)"

definition recordMonth :: "planInput \<Rightarrow> real \<Rightarrow> decState \<Rightarrow> decState" where
  "recordMonth fd w s =
     s\<lparr>fundBalances := fold (\<lambda>i fb. fb[i := fb ! i @ [pots s ! i]])
                           [0..<nat (numFunds fd)] (fundBalances s),
       withdrawals := withdrawals s @ [w],
       statePensionMonthlyValues := statePensionMonthlyValues s @ [currentStatePensionMonthly s]\<rparr>"

definition monthBody :: "planInput \<Rightarrow> decState \<Rightarrow> decState" where
  "monthBody fd s =
     recordMonth fd (withdrawal fd s)
       (yearEnd fd
         (deRisk fd
           (consolidate fd (withdrawal fd s)
             (rebalance fd
               (applyReturns fd
                 (withdraw fd s))))))"

text \<open>The exit through \<open>break\<close>, and the two assignments that end an iteration.\<close>

definition flush :: "decState \<Rightarrow> decState" where
  "flush s =
     (if currentYearWithdrawals s > 0
      then s\<lparr>annualWithdrawals := annualWithdrawals s @ [currentYearWithdrawals s]\<rparr>
      else s)"

definition advance :: "planInput \<Rightarrow> decState \<Rightarrow> decState" where
  "advance fd s =
     s\<lparr>months := months s + 1,
       age := retirementAge fd + int ((months s + 1) div 12)\<rparr>"

text \<open>The body leaves the month counter alone; the loop terminates on it.\<close>

lemma months_monthBody: "months (monthBody fd s) = months s"
proof -
  have 1: "months (withdraw fd s) = months s" for s
    by (simp add: withdraw_def)
  have 2: "months (applyReturns fd s) = months s" for s
    by (simp add: applyReturns_def)
  have 3: "months (rebalance fd s) = months s" for s
    by (simp add: rebalance_def Let_def)
  have 4: "months (consolidate fd w s) = months s" for w s
    by (simp add: consolidate_def split: option.split)
  have 5: "months (deRisk fd s) = months s" for s
    by (simp add: deRisk_def Let_def)
  have 6: "months (yearEnd fd s) = months s" for s
    by (simp add: yearEnd_def)
  have 7: "months (recordMonth fd w s) = months s" for w s
    by (simp add: recordMonth_def)
  show ?thesis
    by (simp only: monthBody_def 1 2 3 4 5 6 7)
qed

function decumLoop :: "planInput \<Rightarrow> decState \<Rightarrow> decState" where
  "decumLoop fd s =
     (if running fd s then
        (if total (pots (monthBody fd s)) < 1 then flush (monthBody fd s)
         else decumLoop fd (advance fd (monthBody fd s)))
      else s)"
  by pat_completeness auto
termination
  by (relation "measure (\<lambda>(fd, s). nat (maxMonths fd - int (months s)))")
     (simp_all add: advance_def running_def months_monthBody)

declare decumLoop.simps [simp del]

definition resultOf :: "decState \<Rightarrow> decumulation" where
  "resultOf s =
     \<lparr>decumulation.funds = fundBalances s,
      decumulation.withdrawals = withdrawals s,
      decumulation.annualWithdrawals = annualWithdrawals s,
      decumulation.statePensionMonthlyValues = statePensionMonthlyValues s,
      decumulation.statePensionAnnualValues = statePensionAnnualValues s\<rparr>"

definition simulateDecumulation :: "planInput \<Rightarrow> jsvalue \<Rightarrow> decumulation" where
  "simulateDecumulation fd startingPot =
     (if falsy startingPot \<or> isNaN startingPot \<or> leZero startingPot then degenerate
      else (case startingPot of
              Num x \<Rightarrow> resultOf (decumLoop fd (initialState fd x))
            | _ \<Rightarrow> degenerate))"

text \<open>
  \<open>stateAt fd x m\<close> is the state at the head of the loop after \<open>m\<close> complete
  iterations, when the loop gets that far: it observes the months of a run one by one.
\<close>

fun stateAt :: "planInput \<Rightarrow> real \<Rightarrow> nat \<Rightarrow> decState option" where
  "stateAt fd x 0 = Some (initialState fd x)"
| "stateAt fd x (Suc m) =
     (case stateAt fd x m of
        None \<Rightarrow> None
      | Some s \<Rightarrow>
          if running fd s \<and> \<not> total (pots (monthBody fd s)) < 1
          then Some (advance fd (monthBody fd s))
          else None)"

text \<open>
  Predicates used in the proofs. \<open>settled\<close> is the state of a month before its
  values are recorded. At the head of the loop, \<open>recorded\<close> says that every monthly
  series has one entry for each past month, and \<open>sound\<close> adds that there is one pot for
  each fund, that no pot is negative and that \<open>age\<close> is the age of the current month;
  \<open>stopped\<close> is what holds of the state the loop returns.
\<close>

definition nonneg :: "real list \<Rightarrow> bool" where
  "nonneg ps \<longleftrightarrow> (\<forall>j<length ps. 0 \<le> ps ! j)"

definition settled :: "planInput \<Rightarrow> decState \<Rightarrow> decState" where
  "settled fd s =
     yearEnd fd (deRisk fd (consolidate fd (withdrawal fd s)
       (rebalance fd (applyReturns fd (withdraw fd s)))))"

definition recorded :: "planInput \<Rightarrow> decState \<Rightarrow> bool" where
  "recorded fd s \<longleftrightarrow>
     length (fundBalances s) = nat (numFunds fd)
   \<and> length (withdrawals s) = months s
   \<and> length (statePensionMonthlyValues s) = months s
   \<and> (\<forall>i<nat (numFunds fd). length (fundBalances s ! i) = months s)"

definition sound :: "planInput \<Rightarrow> decState \<Rightarrow> bool" where
  "sound fd s \<longleftrightarrow>
     recorded fd s
   \<and> length (pots s) = nat (numFunds fd)
   \<and> nonneg (pots s)
   \<and> age s = formData.retirementAge fd + int (months s div 12)"

definition stopped :: "planInput \<Rightarrow> decState \<Rightarrow> bool" where
  "stopped fd r \<longleftrightarrow>
     length (fundBalances r) = nat (numFunds fd)
   \<and> length (withdrawals r) \<le> nat (maxMonths fd)
   \<and> length (statePensionMonthlyValues r) = length (withdrawals r)
   \<and> (\<forall>i<nat (numFunds fd). length (fundBalances r ! i) = length (withdrawals r))
   \<and> (total (pots r) < 1 \<or> maxMonths fd \<le> int (months r))"

section \<open>Properties of the validator\<close>

lemma update_fresh:
  "k \<notin> fst ` set al \<Longrightarrow> AList.update k v al = al @ [(k, v)]"
  by (induction al) auto

lemma fst_numberError: "fst (numberError f) = fst f"
  by (cases f) (simp add: numberError_def)

lemma fold_checkNumbers:
  assumes "distinct (map fst fs)" and "fst ` set fs \<inter> fst ` set acc = {}"
  shows "fold (\<lambda>f newErrors.
             if invalidNumber pf f
             then AList.update (fst (numberError f)) (snd (numberError f)) newErrors
             else newErrors) fs acc
         = acc @ map numberError (filter (invalidNumber pf) fs)"
  using assms
proof (induction fs arbitrary: acc)
  case Nil
  then show ?case by simp
next
  case (Cons f fs)
  have dist: "distinct (map fst fs)"
    using Cons.prems(1) by simp
  show ?case
  proof (cases "invalidNumber pf f")
    case True
    have fresh: "fst (numberError f) \<notin> fst ` set acc"
      using Cons.prems(2) by (auto simp: fst_numberError)
    have disj: "fst ` set fs \<inter> fst ` set (acc @ [numberError f]) = {}"
      using Cons.prems by (auto simp: fst_numberError)
    show ?thesis
      using True Cons.IH [OF dist disj]
      by (simp add: update_fresh [OF fresh])
  next
    case False
    have disj: "fst ` set fs \<inter> fst ` set acc = {}"
      using Cons.prems(2) by auto
    show ?thesis
      using False Cons.IH [OF dist disj] by simp
  qed
qed

lemma distinct_formFields: "distinct (map fst (formFields fd))"
  by (simp add: formFields_def split: drawdownKind.split)

lemma checkNumbers_formFields:
  "checkNumbers pf (formFields fd) = map numberError (filter (invalidNumber pf) (formFields fd))"
  unfolding checkNumbers_def
  using fold_checkNumbers [OF distinct_formFields, where acc = "[]"] by simp

text \<open>
  Every message of the first stage ends in \<open>number.\<close>, and no message of the range
  checks does: the last letter tells the two stages apart.
\<close>

lemma numberError_message:
  "e \<in> numberError ` set (formFields fd) \<Longrightarrow> last (butlast (snd e)) = CHR ''r''"
  by (cases "drawdownType fd") (auto simp: formFields_def numberError_def)

lemma rangeChecks_message:
  "e \<in> set (rangeChecks pf pI fd) \<Longrightarrow> last (butlast (snd e)) \<noteq> CHR ''r''"
  by (auto simp: rangeChecks_def Let_def split: if_splits)

text \<open>
  When every value the simulators parse is a number, the range checks pass exactly on
  the forms whose parsed numbers satisfy \<open>validPlan\<close>.
\<close>

lemma rangeChecks_Nil_iff:
  assumes "parsesTo pf pI raw fd"
  shows "rangeChecks pf pI raw = [] \<longleftrightarrow> validPlan fd"
  using assms
  by (cases "drawdownType raw"; cases "includeStatePension raw")
     (simp_all add: rangeChecks_def parsesTo_def validPlan_def lt_def le_def Let_def
       not_le not_less)

lemma validateInputs_accepts:
  assumes "validateInputs pf pI raw = (True, [])" and "parsesTo pf pI raw fd"
  shows "validPlan fd"
proof -
  have "rangeChecks pf pI raw = []"
    using assms(1) by (simp add: validateInputs_def split: if_splits)
  then show ?thesis
    using rangeChecks_Nil_iff [OF assms(2)] by simp
qed

lemma parsesTo_example: "parsesTo digitsParseFloat digitsParseInt exampleRaw exampleForm"
  by (simp add: parsesTo_def exampleRaw_def exampleForm_def digitsParseFloat_def
      digitsParseInt_def parseDigits_def digitValue_def)

lemma validPlan_example: "validPlan exampleForm"
  by (simp add: validPlan_def exampleForm_def)

lemma validateInputs_example:
  "validateInputs digitsParseFloat digitsParseInt exampleRaw = (True, [])"
proof -
  have "filter (invalidNumber digitsParseFloat) (formFields exampleRaw) = []"
    by (simp add: formFields_def exampleRaw_def invalidNumber_def digitsParseFloat_def
        parseDigits_def digitValue_def)
  moreover have "rangeChecks digitsParseFloat digitsParseInt exampleRaw = []"
    using rangeChecks_Nil_iff [OF parsesTo_example] validPlan_example by simp
  ultimately show ?thesis
    by (simp add: validateInputs_def checkNumbers_formFields)
qed

text \<open>
  C9. When at least one required field (the drawdown parameter of the selected policy
  and the custom state-pension amount under that policy included) is empty or does not
  parse as a number, the validator returns false with exactly one first-stage error for
  each such field and for no other; no entry that the range checks can produce, on any
  form, is among them.
\<close>

theorem validation_short_circuits:
  assumes "list_ex (invalidNumber parseFloat) (formFields fd)"
  shows "validateInputs parseFloat parseInt fd
           = (False, map numberError (filter (invalidNumber parseFloat) (formFields fd)))
       \<and> set (snd (validateInputs parseFloat parseInt fd))
           \<inter> set (rangeChecks parseFloat' parseInt' fd') = {}"
proof -
  have "filter (invalidNumber parseFloat) (formFields fd) \<noteq> []"
    using assms by (simp add: filter_empty_conv list_ex_iff)
  then have eq: "validateInputs parseFloat parseInt fd
           = (False, map numberError (filter (invalidNumber parseFloat) (formFields fd)))"
    by (simp add: validateInputs_def checkNumbers_formFields)
  have "set (map numberError (filter (invalidNumber parseFloat) (formFields fd)))
           \<inter> set (rangeChecks parseFloat' parseInt' fd') = {}"
    using numberError_message [of _ fd] rangeChecks_message [of _ parseFloat' parseInt' fd']
    by fastforce
  with eq show ?thesis
    by simp
qed

theorem validation_short_circuits_witness:
  "list_ex (invalidNumber digitsParseFloat)
     (formFields (exampleRaw\<lparr>formData.age := [], salary := ''abc'', retirementAge := ''20''\<rparr>))
   \<and> validateInputs digitsParseFloat digitsParseInt
       (exampleRaw\<lparr>formData.age := [], salary := ''abc'', retirementAge := ''20''\<rparr>)
     = (False, [(''age'', ''Current Age must be a valid number.''),
                (''salary'', ''Salary must be a valid number.'')])"
proof -
  let ?fd = "exampleRaw\<lparr>formData.age := [], salary := ''abc'', retirementAge := ''20''\<rparr>"
  have bad: "filter (invalidNumber digitsParseFloat) (formFields ?fd)
             = [(''age'', ''Current Age'', []), (''salary'', ''Salary'', ''abc'')]"
    by (simp add: formFields_def exampleRaw_def invalidNumber_def digitsParseFloat_def
        parseDigits_def digitValue_def)
  have ex: "list_ex (invalidNumber digitsParseFloat) (formFields ?fd)"
    by (simp add: formFields_def exampleRaw_def invalidNumber_def)
  show ?thesis
    using validation_short_circuits [OF ex, of digitsParseInt] ex
    by (simp add: bad numberError_def)
qed

section \<open>Properties of the accumulation simulator\<close>

lemma lt_loopCount: "lt (Some (real year)) yrs \<longleftrightarrow> year < loopCount yrs"
proof (cases yrs)
  case None
  then show ?thesis by (simp add: lt_def loopCount_def)
next
  case (Some y)
  have "real year < y \<longleftrightarrow> int year < \<lceil>y\<rceil>"
    by linarith
  then show ?thesis
    by (simp add: Some lt_def loopCount_def zless_nat_eq_int_zless)
qed

lemma length_yearLoop:
  "length (yearLoop fd yrs u year pot sal yb) = length yb + (loopCount yrs - year)"
proof (induction fd yrs u year pot sal yb rule: yearLoop.induct)
  case (1 fd yrs u year pot sal yb)
  show ?case
  proof (cases "lt (Some (real year)) yrs")
    case True
    then have "year < loopCount yrs"
      by (simp add: lt_loopCount)
    then show ?thesis
      using "1.IH" [OF True refl refl refl] True
      by (subst yearLoop.simps) (simp add: Let_def)
  next
    case False
    then have "loopCount yrs \<le> year"
      by (simp add: lt_loopCount)
    then show ?thesis
      using False by (subst yearLoop.simps) simp
  qed
qed

lemma length_simulatePath: "length (simulatePath fd yrs U i) = loopCount yrs"
  by (simp add: simulatePath_def length_yearLoop)

lemma arrayLength_le_loopCount: "arrayLength yrs \<le> loopCount yrs"
proof (cases yrs)
  case None
  then show ?thesis by (simp add: arrayLength_def loopCount_def)
next
  case (Some y)
  have "\<lfloor>y\<rfloor> \<le> \<lceil>y\<rceil>"
    by linarith
  then show ?thesis
    by (simp add: Some arrayLength_def loopCount_def nat_mono)
qed

lemma length_percentiles: "length (percentiles fd yrs U) = arrayLength yrs"
  by (simp add: percentiles_def)

lemma length_series:
  "length (p25 (simulateAccumulation toNumber raw fd U)) = arrayLength (years toNumber raw)"
  "length (p50 (simulateAccumulation toNumber raw fd U)) = arrayLength (years toNumber raw)"
  "length (p75 (simulateAccumulation toNumber raw fd U)) = arrayLength (years toNumber raw)"
  by (simp_all add: simulateAccumulation_def length_percentiles)

lemma column_eq_yearValues:
  "map (\<lambda>run. run ! i) (results fd yrs U) = yearValues fd yrs U i"
  by (simp add: results_def yearValues_def comp_def)

lemma percentiles_nth:
  "i < arrayLength yrs \<Longrightarrow> percentiles fd yrs U ! i = sort (yearValues fd yrs U i)"
  by (simp add: percentiles_def column_eq_yearValues)

lemma length_yearValues: "length (yearValues fd yrs U i) = 1000"
  by (simp add: yearValues_def simulations_def)

lemma percentile_series_nth:
  assumes "i < arrayLength (years toNumber raw)"
  shows "p25 (simulateAccumulation toNumber raw fd U) ! i
           = sort (yearValues fd (years toNumber raw) U i) ! 250"
    and "p50 (simulateAccumulation toNumber raw fd U) ! i
           = sort (yearValues fd (years toNumber raw) U i) ! 500"
    and "p75 (simulateAccumulation toNumber raw fd U) ! i
           = sort (yearValues fd (years toNumber raw) U i) ! 750"
  using assms
  by (simp_all add: simulateAccumulation_def length_percentiles percentiles_nth
      getPercentile_def length_yearValues)

lemma runs_cover_index:
  "i < arrayLength yrs \<Longrightarrow> list_all (\<lambda>run. i < length run) (results fd yrs U)"
  using arrayLength_le_loopCount [of yrs]
  by (simp add: results_def list_all_iff length_simulatePath)

lemma decimalNumber_values:
  "decimalNumber ''65'' = Some 65" "decimalNumber ''30'' = Some 30"
  "decimalNumber ''63'' = Some 63" "decimalNumber ''30.5'' = Some 30.5"
  by (simp_all add: decimalNumber_def decimalParseFloat_def decimalParts_def parseDigits_def
      digitValue_def Let_def)

lemma years_exampleRaw: "years decimalNumber exampleRaw = Some 35"
  by (simp add: years_def exampleRaw_def decimalNumber_values)


lemma arrayLength_values:
  "arrayLength (Some 35) = 35" "arrayLength (Some 2) = 2" "arrayLength (Some 0) = 0"
  by (simp_all add: arrayLength_def)

text \<open>
  C1. For every year index \<open>i\<close> of the accumulation output, that year's column holds the
  1000 path values (every path has an entry at \<open>i\<close>), and \<open>p25\<close>, \<open>p50\<close>, \<open>p75\<close> at
  \<open>i\<close> are the elements at positions 250, 500 and 750 (0-based) of the column sorted
  ascending: nearest-rank indexing with \<open>floor(percentile * 1000)\<close>, no interpolation
  and no averaging of midpoints.
\<close>

theorem percentiles_nearest_rank:
  assumes "i < length (p50 (simulateAccumulation toNumber raw fd U))"
  shows "i < length (p25 (simulateAccumulation toNumber raw fd U))
       \<and> i < length (p75 (simulateAccumulation toNumber raw fd U))
       \<and> list_all (\<lambda>run. i < length run) (results fd (years toNumber raw) U)
       \<and> yearValues fd (years toNumber raw) U i
           = map (\<lambda>run. run ! i) (results fd (years toNumber raw) U)
       \<and> length (yearValues fd (years toNumber raw) U i) = 1000
       \<and> sorted (sort (yearValues fd (years toNumber raw) U i))
       \<and> mset (sort (yearValues fd (years toNumber raw) U i))
           = mset (yearValues fd (years toNumber raw) U i)
       \<and> nat \<lfloor>0.25 * real (length (yearValues fd (years toNumber raw) U i))\<rfloor> = 250
       \<and> nat \<lfloor>0.5 * real (length (yearValues fd (years toNumber raw) U i))\<rfloor> = 500
       \<and> nat \<lfloor>0.75 * real (length (yearValues fd (years toNumber raw) U i))\<rfloor> = 750
       \<and> p25 (simulateAccumulation toNumber raw fd U) ! i
           = sort (yearValues fd (years toNumber raw) U i) ! 250
       \<and> p50 (simulateAccumulation toNumber raw fd U) ! i
           = sort (yearValues fd (years toNumber raw) U i) ! 500
       \<and> p75 (simulateAccumulation toNumber raw fd U) ! i
           = sort (yearValues fd (years toNumber raw) U i) ! 750"
proof -
  have i: "i < arrayLength (years toNumber raw)"
    using assms by (simp add: length_series)
  show ?thesis
    using i runs_cover_index [OF i]
    by (simp add: length_series length_yearValues percentile_series_nth
        column_eq_yearValues)
qed

theorem percentiles_nearest_rank_witness:
  "(34::nat) < length (p50 (simulateAccumulation decimalNumber exampleRaw exampleForm halfDraws))
   \<and> p50 (simulateAccumulation decimalNumber exampleRaw exampleForm halfDraws) ! 34
       = sort (yearValues exampleForm (Some 35) halfDraws 34) ! 500"
proof -
  have len: "length (p50 (simulateAccumulation decimalNumber exampleRaw exampleForm halfDraws)) = 35"
    by (simp add: length_series years_exampleRaw arrayLength_values)
  then have i: "34 < length (p50 (simulateAccumulation decimalNumber exampleRaw exampleForm halfDraws))"
    by simp
  show ?thesis
    using percentiles_nearest_rank [OF i] len
    by (simp add: years_exampleRaw)
qed

text \<open>
  C5. For every accumulation run and every year index \<open>i\<close> of its output,
  \<open>p25[i] \<le> p50[i] \<le> p75[i]\<close>: the three values come from the same ascending-sorted
  column at the increasing indices 250, 500 and 750.
\<close>

theorem percentile_ordering:
  assumes "i < length (p50 (simulateAccumulation toNumber raw fd U))"
  shows "p25 (simulateAccumulation toNumber raw fd U) ! i
           \<le> p50 (simulateAccumulation toNumber raw fd U) ! i
       \<and> p50 (simulateAccumulation toNumber raw fd U) ! i
           \<le> p75 (simulateAccumulation toNumber raw fd U) ! i"
proof -
  let ?row = "sort (yearValues fd (years toNumber raw) U i)"
  have i: "i < arrayLength (years toNumber raw)"
    using assms by (simp add: length_series)
  have "?row ! 250 \<le> ?row ! 500"
    by (rule sorted_nth_mono) (simp_all add: length_yearValues)
  moreover have "?row ! 500 \<le> ?row ! 750"
    by (rule sorted_nth_mono) (simp_all add: length_yearValues)
  ultimately show ?thesis
    by (simp add: percentile_series_nth [OF i])
qed

theorem percentile_ordering_witness:
  "(0::nat) < length (p50 (simulateAccumulation decimalNumber exampleRaw exampleForm halfDraws))
   \<and> p25 (simulateAccumulation decimalNumber exampleRaw exampleForm halfDraws) ! 0
       \<le> p50 (simulateAccumulation decimalNumber exampleRaw exampleForm halfDraws) ! 0
   \<and> p50 (simulateAccumulation decimalNumber exampleRaw exampleForm halfDraws) ! 0
       \<le> p75 (simulateAccumulation decimalNumber exampleRaw exampleForm halfDraws) ! 0"
proof -
  have i: "0 < length (p50 (simulateAccumulation decimalNumber exampleRaw exampleForm halfDraws))"
    by (simp add: length_series years_exampleRaw arrayLength_values)
  show ?thesis
    using percentile_ordering [OF i] i by simp
qed






text \<open>Order statistics are monotone: raising values pointwise raises every rank.\<close>

lemma count_le_pointwise:
  fixes xs ys :: "real list"
  assumes "length xs = length ys" and "\<forall>j<length xs. xs ! j \<le> ys ! j"
  shows "length (filter (\<lambda>y. y \<le> v) ys) \<le> length (filter (\<lambda>x. x \<le> v) xs)"
  using assms
proof (induction xs ys rule: list_induct2)
  case Nil
  then show ?case by simp
next
  case (Cons x xs y ys)
  have "x \<le> y"
    using Cons.prems by (auto dest: spec [of _ 0])
  moreover have "\<forall>j<length xs. xs ! j \<le> ys ! j"
    using Cons.prems by (auto dest: spec [of _ "Suc _"])
  ultimately show ?case
    using Cons.IH by auto
qed

lemma sorted_count_le_nth:
  fixes zs :: "real list"
  assumes "sorted zs" and "k < length zs"
  shows "k < length (filter (\<lambda>z. z \<le> zs ! k) zs)"
proof -
  have "zs ! i \<le> zs ! k" if "i < Suc k" for i
    using that assms by (intro sorted_nth_mono) simp_all
  then have "filter (\<lambda>z. z \<le> zs ! k) (take (Suc k) zs) = take (Suc k) zs"
    using assms(2) by (auto simp: filter_id_conv in_set_conv_nth)
  then have "length (filter (\<lambda>z. z \<le> zs ! k) (take (Suc k) zs)) = Suc k"
    using assms(2) by simp
  moreover have "length (filter (\<lambda>z. z \<le> zs ! k) zs)
      = length (filter (\<lambda>z. z \<le> zs ! k) (take (Suc k) zs))
        + length (filter (\<lambda>z. z \<le> zs ! k) (drop (Suc k) zs))"
    using arg_cong [OF append_take_drop_id [of "Suc k" zs],
        of "\<lambda>l. length (filter (\<lambda>z. z \<le> zs ! k) l)"]
    by (simp only: filter_append length_append)
  ultimately show ?thesis
    by linarith
qed

lemma sorted_nth_le_if_count:
  fixes zs :: "real list"
  assumes "sorted zs" and "k < length zs" and "k < length (filter (\<lambda>z. z \<le> v) zs)"
  shows "zs ! k \<le> v"
proof (rule ccontr)
  assume "\<not> zs ! k \<le> v"
  then have gt: "v < zs ! k"
    by simp
  have "filter (\<lambda>z. z \<le> v) (drop k zs) = []"
  proof -
    have "v < z" if "z \<in> set (drop k zs)" for z
    proof -
      from that obtain j where "j < length zs - k" "z = zs ! (k + j)"
        by (auto simp: in_set_conv_nth)
      then have "zs ! k \<le> z"
        using assms(1) by (auto intro: sorted_nth_mono)
      then show ?thesis
        using gt by simp
    qed
    then show ?thesis
      by (force simp: filter_empty_conv)
  qed
  moreover have "length (filter (\<lambda>z. z \<le> v) zs)
      = length (filter (\<lambda>z. z \<le> v) (take k zs))
        + length (filter (\<lambda>z. z \<le> v) (drop k zs))"
    using arg_cong [OF append_take_drop_id [of k zs],
        of "\<lambda>l. length (filter (\<lambda>z. z \<le> v) l)"]
    by (simp only: filter_append length_append)
  moreover have "length (filter (\<lambda>z. z \<le> v) (take k zs)) \<le> k"
    using length_filter_le [of "\<lambda>z. z \<le> v" "take k zs"] by simp
  ultimately have "length (filter (\<lambda>z. z \<le> v) zs) \<le> k"
    by simp
  then show False
    using assms(2,3) by simp
qed

lemma length_filter_sort:
  fixes xs :: "real list"
  shows "length (filter P (sort xs)) = length (filter P xs)"
proof -
  have "mset (filter P (sort xs)) = mset (filter P xs)"
    by simp
  then show ?thesis
    by (metis size_mset)
qed

lemma sort_nth_mono_pointwise:
  fixes xs ys :: "real list"
  assumes "length xs = length ys" and "\<forall>j<length xs. xs ! j \<le> ys ! j" and "k < length xs"
  shows "sort xs ! k \<le> sort ys ! k"
proof -
  let ?v = "sort ys ! k"
  have "k < length (filter (\<lambda>z. z \<le> ?v) (sort ys))"
    using assms(1,3) by (intro sorted_count_le_nth) simp_all
  then have "k < length (filter (\<lambda>y. y \<le> ?v) ys)"
    by (simp add: length_filter_sort)
  also have "\<dots> \<le> length (filter (\<lambda>x. x \<le> ?v) xs)"
    by (rule count_le_pointwise [OF assms(1,2)])
  finally have "k < length (filter (\<lambda>z. z \<le> ?v) (sort xs))"
    by (simp add: length_filter_sort)
  then show ?thesis
    using assms(3) by (intro sorted_nth_le_if_count) simp_all
qed

text \<open>
  C7 (as amended). From one year index to the next, each of \<open>p25\<close>, \<open>p50\<close>, \<open>p75\<close> does
  not decrease whenever no simulated path's pot is lower in the later year than in the
  earlier one.
\<close>

theorem percentiles_nondecreasing_when_paths_are:
  assumes "Suc k < length (p50 (simulateAccumulation toNumber raw fd U))"
    and "list_all (\<lambda>run. run ! k \<le> run ! Suc k) (results fd (years toNumber raw) U)"
  shows "p25 (simulateAccumulation toNumber raw fd U) ! k
           \<le> p25 (simulateAccumulation toNumber raw fd U) ! Suc k
       \<and> p50 (simulateAccumulation toNumber raw fd U) ! k
           \<le> p50 (simulateAccumulation toNumber raw fd U) ! Suc k
       \<and> p75 (simulateAccumulation toNumber raw fd U) ! k
           \<le> p75 (simulateAccumulation toNumber raw fd U) ! Suc k"
proof -
  let ?yrs = "years toNumber raw"
  have sk: "Suc k < arrayLength ?yrs"
    using assms(1) by (simp add: length_series)
  then have k: "k < arrayLength ?yrs"
    by simp
  have paths: "\<forall>j<length (yearValues fd ?yrs U k).
                 yearValues fd ?yrs U k ! j \<le> yearValues fd ?yrs U (Suc k) ! j"
    using assms(2)
    by (simp add: yearValues_def results_def list_all_iff)
  have rank: "sort (yearValues fd ?yrs U k) ! idx \<le> sort (yearValues fd ?yrs U (Suc k)) ! idx"
    if "idx < 1000" for idx
    using that paths
    by (intro sort_nth_mono_pointwise) (simp_all add: length_yearValues)
  show ?thesis
    using rank [of 250] rank [of 500] rank [of 750]
    by (simp add: percentile_series_nth [OF k] percentile_series_nth [OF sk])
qed

text \<open>
  The theorem applies to runs with falling returns too. With the pot of the example two
  years before retirement and path \<open>j\<close> drawing \<open>j / 1000\<close> in both years, the returns
  range from \<open>-0.0934\<close> to almost \<open>0.1994\<close>, and every path still ends the second
  year above the first: the contributions outweigh the loss.
\<close>

lemma simulatePath_smallPot:
  "simulatePath smallPotForm (Some 2) U j
     = [13000 * (1 + (0.053 + 0.1464 * (U j 0 * 2 - 1))),
        (13000 * (1 + (0.053 + 0.1464 * (U j 0 * 2 - 1))) + 3060)
          * (1 + (0.053 + 0.1464 * (U j 1 * 2 - 1)))]"
  unfolding simulatePath_def
  apply (subst yearLoop.simps, simp add: lt_def Let_def)
  apply (subst yearLoop.simps, simp add: lt_def Let_def)
  apply (subst yearLoop.simps, simp add: lt_def Let_def)
  apply (simp add: smallPotForm_def exampleForm_def algebra_simps)
  done

lemma smallPot_paths_rise:
  assumes "j < 1000"
  shows "simulatePath smallPotForm (Some 2) spreadDraws j ! 0
           \<le> simulatePath smallPotForm (Some 2) spreadDraws j ! Suc 0"
proof -
  define r :: real where "r = 0.053 + 0.1464 * (real j / 1000 * 2 - 1)"
  define p0 :: real where "p0 = 13000 * (1 + r)"
  have j: "0 \<le> real j" "real j < 1000"
    using assms by simp_all
  have lo: "- 0.0934 \<le> r" and hi: "r \<le> 0.1994"
    using j by (simp_all add: r_def field_simps)
  have p0: "0 \<le> p0" "p0 \<le> 15600"
    using lo hi by (simp_all add: p0_def)
  have "p0 * (- 0.0934) \<le> p0 * r"
    using lo p0(1) by (intro mult_left_mono) simp_all
  then have "p0 \<le> (p0 + 3060) * (1 + r)"
    using p0 lo by (simp add: algebra_simps)
  then show ?thesis
    by (simp add: simulatePath_smallPot spreadDraws_def p0_def r_def)
qed

lemma years_smallPotRaw: "years decimalNumber smallPotRaw = Some 2"
  by (simp add: years_def smallPotRaw_def exampleRaw_def decimalNumber_values)

theorem percentiles_nondecreasing_when_paths_are_witness:
  "Suc 0 < length (p50 (simulateAccumulation decimalNumber smallPotRaw smallPotForm spreadDraws))
   \<and> list_all (\<lambda>run. run ! 0 \<le> run ! Suc 0)
        (results smallPotForm (years decimalNumber smallPotRaw) spreadDraws)
   \<and> simulatePath smallPotForm (years decimalNumber smallPotRaw) spreadDraws 0
       = [11785.8, 13459.20228]
   \<and> simulatePath smallPotForm (years decimalNumber smallPotRaw) spreadDraws 999
       = [15588.3936, 22361.42303419392]
   \<and> p50 (simulateAccumulation decimalNumber smallPotRaw smallPotForm spreadDraws) ! 0
       \<le> p50 (simulateAccumulation decimalNumber smallPotRaw smallPotForm spreadDraws) ! Suc 0"
proof -
  have len: "Suc 0 < length (p50 (simulateAccumulation decimalNumber smallPotRaw smallPotForm
                                    spreadDraws))"
    by (simp add: length_series years_smallPotRaw arrayLength_values)
  have rise: "list_all (\<lambda>run. run ! 0 \<le> run ! Suc 0)
        (results smallPotForm (years decimalNumber smallPotRaw) spreadDraws)"
    using smallPot_paths_rise
    by (simp add: years_smallPotRaw results_def list_all_iff simulations_def)
  have ends: "simulatePath smallPotForm (Some 2) spreadDraws 0 = [11785.8, 13459.20228]"
    "simulatePath smallPotForm (Some 2) spreadDraws 999 = [15588.3936, 22361.42303419392]"
    by (simp_all add: simulatePath_smallPot spreadDraws_def)
  show ?thesis
    using percentiles_nondecreasing_when_paths_are [OF len rise] len rise
    by (simp add: years_smallPotRaw ends)
qed

lemma years_largePotRaw: "years decimalNumber largePotRaw = Some 2"
  by (simp add: years_def largePotRaw_def exampleRaw_def decimalNumber_values)

lemma simulatePath_largePot:
  "simulatePath largePotForm (Some 2) quarterDraws j = [4913697 / 5, 24147156303 / 25000]"
  unfolding simulatePath_def
  apply (subst yearLoop.simps, simp add: lt_def Let_def)
  apply (subst yearLoop.simps, simp add: lt_def Let_def)
  apply (subst yearLoop.simps, simp add: lt_def Let_def)
  apply (simp add: largePotForm_def exampleForm_def quarterDraws_def)
  done

lemma yearValues_largePot:
  "yearValues largePotForm (Some 2) quarterDraws i
     = replicate 1000 ([4913697 / 5, 24147156303 / 25000] ! i)"
  by (simp add: yearValues_def simulatePath_largePot simulations_def map_replicate_const)

lemma sort_replicate: "sort (replicate n (c::real)) = replicate n c"
  by (simp add: sorted_sort_id sorted_replicate)

lemma validPlan_largePot: "validPlan largePotForm"
  by (simp add: validPlan_def largePotForm_def exampleForm_def)

lemma parsesTo_largePot: "parsesTo digitsParseFloat digitsParseInt largePotRaw largePotForm"
  by (simp add: parsesTo_def largePotRaw_def largePotForm_def exampleRaw_def exampleForm_def
      digitsParseFloat_def digitsParseInt_def parseDigits_def digitValue_def)

lemma validateInputs_largePot:
  "validateInputs digitsParseFloat digitsParseInt largePotRaw = (True, [])"
proof -
  have "filter (invalidNumber digitsParseFloat) (formFields largePotRaw) = []"
    by (simp add: formFields_def largePotRaw_def exampleRaw_def invalidNumber_def
        digitsParseFloat_def parseDigits_def digitValue_def)
  moreover have "rangeChecks digitsParseFloat digitsParseInt largePotRaw = []"
    using rangeChecks_Nil_iff [OF parsesTo_largePot] validPlan_largePot by simp
  ultimately show ?thesis
    by (simp add: validateInputs_def checkNumbers_formFields)
qed

text \<open>
  C7 as stated fails: the claim has no condition on the draws. With a pot of 1000000,
  two years to retirement, fund 5 and every draw equal to \<open>1/4\<close>, every path has the
  return \<open>0.053 - 0.0732 = -0.0202\<close> in both years; all three series read 982739.4 in
  year 0 and 965886.25212 in year 1.
\<close>

theorem percentiles_can_decrease:
  "validateInputs digitsParseFloat digitsParseInt largePotRaw = (True, [])
   \<and> parsesTo digitsParseFloat digitsParseInt largePotRaw largePotForm
   \<and> years decimalNumber largePotRaw = Some 2
   \<and> \<not> (p25 (simulateAccumulation decimalNumber largePotRaw largePotForm quarterDraws) ! 0
          \<le> p25 (simulateAccumulation decimalNumber largePotRaw largePotForm quarterDraws) ! 1)
   \<and> \<not> (p50 (simulateAccumulation decimalNumber largePotRaw largePotForm quarterDraws) ! 0
          \<le> p50 (simulateAccumulation decimalNumber largePotRaw largePotForm quarterDraws) ! 1)
   \<and> \<not> (p75 (simulateAccumulation decimalNumber largePotRaw largePotForm quarterDraws) ! 0
          \<le> p75 (simulateAccumulation decimalNumber largePotRaw largePotForm quarterDraws) ! 1)
   \<and> p50 (simulateAccumulation decimalNumber largePotRaw largePotForm quarterDraws) ! 0
       = 982739.4
   \<and> p50 (simulateAccumulation decimalNumber largePotRaw largePotForm quarterDraws) ! 1
       = 965886.25212"
proof -
  have 0: "(0::nat) < arrayLength (years decimalNumber largePotRaw)"
    and 1: "Suc 0 < arrayLength (years decimalNumber largePotRaw)"
    by (simp_all add: years_largePotRaw arrayLength_values)
  show ?thesis
    by (simp add: percentile_series_nth [OF 0] percentile_series_nth [OF 1]
        years_largePotRaw yearValues_largePot sort_replicate validateInputs_largePot
        parsesTo_largePot)
qed

section \<open>Properties of the decumulation simulator\<close>

lemma length_fold_update [simp]:
  "length (fold (\<lambda>i xs. xs[i := f i xs]) js xs) = length xs"
  by (induction js arbitrary: xs) simp_all

lemma fold_update_nth:
  "fold (\<lambda>i xs. xs[i := f i (xs ! i)]) [a..<b] xs ! j
     = (if a \<le> j \<and> j < b \<and> j < length xs then f j (xs ! j) else xs ! j)"
proof (induction b arbitrary: j)
  case 0
  then show ?case by simp
next
  case (Suc b)
  let ?ys = "fold (\<lambda>i xs. xs[i := f i (xs ! i)]) [a..<b] xs"
  have len: "length ?ys = length xs"
    by simp
  show ?case
  proof (cases "a \<le> b")
    case True
    have step: "fold (\<lambda>i xs. xs[i := f i (xs ! i)]) [a..<Suc b] xs = ?ys[b := f b (?ys ! b)]"
      using True by simp
    have yb: "?ys ! b = xs ! b"
      using Suc [of b] by simp
    show ?thesis
    proof (cases "j = b")
      case same: True
      show ?thesis
      proof (cases "b < length xs")
        case True
        then show ?thesis
          using same \<open>a \<le> b\<close> by (simp add: step yb len)
      next
        case False
        then have "?ys[b := f b (?ys ! b)] = ?ys"
          by (simp add: list_update_beyond)
        then show ?thesis
          using False same yb by (simp only: step) simp
      qed
    next
      case False
      then show ?thesis
        using Suc [of j] by (auto simp: step)
    qed
  next
    case False
    then show ?thesis by auto
  qed
qed

lemma total_sum_list: "total ps = sum_list ps"
proof -
  have "foldl (\<lambda>acc pot. acc + pot) a ps = a + sum_list ps" for a :: real
    by (induction ps arbitrary: a) simp_all
  then show ?thesis
    by (simp add: total_def)
qed


lemma prefix_nth: "prefix xs ys \<Longrightarrow> i < length xs \<Longrightarrow> ys ! i = xs ! i"
  by (auto simp: prefix_def nth_append)

lemma sum_list_update_real:
  fixes xs :: "real list"
  shows "k < length xs \<Longrightarrow> sum_list (xs[k := y]) = sum_list xs + y - xs ! k"
proof (induction xs arbitrary: k)
  case Nil
  then show ?case by simp
next
  case (Cons a xs)
  then show ?case by (cases k) simp_all
qed

lemma monthBody_settled: "monthBody fd s = recordMonth fd (withdrawal fd s) (settled fd s)"
  by (simp add: monthBody_def settled_def)

lemma nonneg_sum_list: "nonneg ps \<Longrightarrow> 0 \<le> sum_list ps"
  by (auto simp: nonneg_def in_set_conv_nth intro!: sum_list_nonneg)

lemma nonneg_total: "nonneg ps \<Longrightarrow> 0 \<le> total ps"
  by (simp add: total_sum_list nonneg_sum_list)

lemma nonneg_drop: "nonneg ps \<Longrightarrow> nonneg (drop k ps)"
  by (simp add: nonneg_def)

subsection \<open>What each block of the body leaves unchanged\<close>

lemma withdraw_frame:
  "months (withdraw fd s) = months s" "age (withdraw fd s) = age s"
  "withdrawals (withdraw fd s) = withdrawals s" "fundBalances (withdraw fd s) = fundBalances s"
  "statePensionMonthlyValues (withdraw fd s) = statePensionMonthlyValues s"
  "currentDrawdownFixed (withdraw fd s) = currentDrawdownFixed s"
  "length (pots (withdraw fd s)) = length (pots s)"
  by (simp_all add: withdraw_def)

lemma applyReturns_frame:
  "months (applyReturns fd s) = months s" "age (applyReturns fd s) = age s"
  "withdrawals (applyReturns fd s) = withdrawals s" "fundBalances (applyReturns fd s) = fundBalances s"
  "statePensionMonthlyValues (applyReturns fd s) = statePensionMonthlyValues s"
  "currentDrawdownFixed (applyReturns fd s) = currentDrawdownFixed s"
  "length (pots (applyReturns fd s)) = length (pots s)"
  by (simp_all add: applyReturns_def)

lemma rebalance_frame:
  "months (rebalance fd s) = months s" "age (rebalance fd s) = age s"
  "withdrawals (rebalance fd s) = withdrawals s" "fundBalances (rebalance fd s) = fundBalances s"
  "statePensionMonthlyValues (rebalance fd s) = statePensionMonthlyValues s"
  "currentDrawdownFixed (rebalance fd s) = currentDrawdownFixed s"
  "length (pots (rebalance fd s)) = length (pots s)"
  by (simp_all add: rebalance_def Let_def)

lemma consolidate_frame:
  "months (consolidate fd w s) = months s" "age (consolidate fd w s) = age s"
  "withdrawals (consolidate fd w s) = withdrawals s" "fundBalances (consolidate fd w s) = fundBalances s"
  "statePensionMonthlyValues (consolidate fd w s) = statePensionMonthlyValues s"
  "currentDrawdownFixed (consolidate fd w s) = currentDrawdownFixed s"
  "length (pots (consolidate fd w s)) = length (pots s)"
  by (simp_all add: consolidate_def split: option.split)

lemma deRisk_frame:
  "months (deRisk fd s) = months s" "age (deRisk fd s) = age s"
  "withdrawals (deRisk fd s) = withdrawals s" "fundBalances (deRisk fd s) = fundBalances s"
  "statePensionMonthlyValues (deRisk fd s) = statePensionMonthlyValues s"
  "currentDrawdownFixed (deRisk fd s) = currentDrawdownFixed s"
  "length (pots (deRisk fd s)) = length (pots s)"
  by (simp_all add: deRisk_def Let_def)

lemma yearEnd_frame:
  "months (yearEnd fd s) = months s" "age (yearEnd fd s) = age s"
  "withdrawals (yearEnd fd s) = withdrawals s" "fundBalances (yearEnd fd s) = fundBalances s"
  "statePensionMonthlyValues (yearEnd fd s) = statePensionMonthlyValues s"
  "pots (yearEnd fd s) = pots s"
  by (simp_all add: yearEnd_def)

lemma recordMonth_frame:
  "months (recordMonth fd w s) = months s" "age (recordMonth fd w s) = age s"
  "pots (recordMonth fd w s) = pots s"
  "currentDrawdownFixed (recordMonth fd w s) = currentDrawdownFixed s"
  "withdrawals (recordMonth fd w s) = withdrawals s @ [w]"
  "statePensionMonthlyValues (recordMonth fd w s)
     = statePensionMonthlyValues s @ [currentStatePensionMonthly s]"
  "length (fundBalances (recordMonth fd w s)) = length (fundBalances s)"
  by (simp_all add: recordMonth_def)

lemmas frames = withdraw_frame applyReturns_frame rebalance_frame consolidate_frame
  deRisk_frame yearEnd_frame

lemma settled_frame:
  "months (settled fd s) = months s" "age (settled fd s) = age s"
  "withdrawals (settled fd s) = withdrawals s" "fundBalances (settled fd s) = fundBalances s"
  "statePensionMonthlyValues (settled fd s) = statePensionMonthlyValues s"
  "length (pots (settled fd s)) = length (pots s)"
  by (simp_all add: settled_def frames)

lemma monthBody_frame:
  "months (monthBody fd s) = months s" "age (monthBody fd s) = age s"
  "pots (monthBody fd s) = pots (settled fd s)"
  "length (pots (monthBody fd s)) = length (pots s)"
  "withdrawals (monthBody fd s) = withdrawals s @ [withdrawal fd s]"
  "length (statePensionMonthlyValues (monthBody fd s)) = Suc (length (statePensionMonthlyValues s))"
  "length (fundBalances (monthBody fd s)) = length (fundBalances s)"
  by (simp_all add: monthBody_settled recordMonth_frame settled_frame)

lemma monthBody_fundBalances:
  assumes "i < nat (numFunds fd)" and "i < length (fundBalances s)"
  shows "fundBalances (monthBody fd s) ! i = fundBalances s ! i @ [pots (monthBody fd s) ! i]"
  using assms
  by (simp add: monthBody_settled recordMonth_def settled_frame
      fold_update_nth [where f = "\<lambda>i b. b @ [pots (settled fd s) ! i]"])

lemma recorded_initialState: "recorded fd (initialState fd x)"
  by (simp add: recorded_def initialState_def)

lemma flush_frame:
  "months (flush s) = months s" "pots (flush s) = pots s"
  "withdrawals (flush s) = withdrawals s" "fundBalances (flush s) = fundBalances s"
  "statePensionMonthlyValues (flush s) = statePensionMonthlyValues s"
  by (simp_all add: flush_def)

lemma advance_frame:
  "months (advance fd s) = Suc (months s)" "pots (advance fd s) = pots s"
  "age (advance fd s) = retirementAge fd + int (Suc (months s) div 12)"
  "withdrawals (advance fd s) = withdrawals s" "fundBalances (advance fd s) = fundBalances s"
  "statePensionMonthlyValues (advance fd s) = statePensionMonthlyValues s"
  "currentDrawdownFixed (advance fd s) = currentDrawdownFixed s"
  by (simp_all add: advance_def)

lemma recorded_monthBody:
  assumes "recorded fd s"
  shows "length (fundBalances (monthBody fd s)) = nat (numFunds fd)"
    and "length (withdrawals (monthBody fd s)) = Suc (months s)"
    and "length (statePensionMonthlyValues (monthBody fd s)) = Suc (months s)"
    and "\<forall>i<nat (numFunds fd). length (fundBalances (monthBody fd s) ! i) = Suc (months s)"
  using assms
  by (simp_all add: recorded_def monthBody_frame monthBody_fundBalances)

lemma recorded_advance:
  "recorded fd s \<Longrightarrow> recorded fd (advance fd (monthBody fd s))"
  using recorded_monthBody [of fd s]
  by (simp add: recorded_def advance_frame monthBody_frame)

lemma decumLoop_stopped:
  "recorded fd s \<Longrightarrow> months s \<le> nat (maxMonths fd) \<Longrightarrow> stopped fd (decumLoop fd s)"
proof (induction fd s rule: decumLoop.induct)
  case (1 fd s)
  show ?case
  proof (cases "running fd s")
    case False
    then have "decumLoop fd s = s"
      by (subst decumLoop.simps) simp
    moreover have "total (pots s) < 1 \<or> maxMonths fd \<le> int (months s)"
      using False by (auto simp: running_def)
    ultimately show ?thesis
      using "1.prems" by (simp add: stopped_def recorded_def)
  next
    case True
    then have lt: "months s < nat (maxMonths fd)"
      by (simp add: running_def zless_nat_eq_int_zless)
    show ?thesis
    proof (cases "total (pots (monthBody fd s)) < 1")
      case broke: True
      then have "decumLoop fd s = flush (monthBody fd s)"
        using True by (subst decumLoop.simps) simp
      then show ?thesis
        using broke lt recorded_monthBody [OF "1.prems"(1)]
        by (simp add: stopped_def flush_frame)
    next
      case False
      then have "decumLoop fd s = decumLoop fd (advance fd (monthBody fd s))"
        using True by (subst decumLoop.simps) simp
      moreover have "stopped fd (decumLoop fd (advance fd (monthBody fd s)))"
        using "1.IH" [OF True False recorded_advance [OF "1.prems"(1)]] lt
        by (simp add: advance_frame monthBody_frame)
      ultimately show ?thesis
        by simp
    qed
  qed
qed

text \<open>
  C2. \<open>decumLoop\<close> is a total function: its termination proof above shows that the
  loop ends on every input. For a validated input with retirement age below 100, the
  monthly sequences of the result (monthly withdrawals, monthly state pension, and each
  per-fund balance series) have at most \<open>(100 - retirementAge) * 12\<close> entries, and when
  the loop has run on a positive starting pot it has stopped with the total pot below 1
  (depleted) or with the month bound reached.
\<close>

theorem decumulation_terminates_bounded:
  assumes "validPlan fd" and "formData.retirementAge fd < 100"
  shows "length (decumulation.withdrawals (simulateDecumulation fd startingPot))
           \<le> nat ((100 - formData.retirementAge fd) * 12)
       \<and> length (decumulation.statePensionMonthlyValues (simulateDecumulation fd startingPot))
           \<le> nat ((100 - formData.retirementAge fd) * 12)
       \<and> list_all (\<lambda>series. length series \<le> nat ((100 - formData.retirementAge fd) * 12))
             (decumulation.funds (simulateDecumulation fd startingPot))
       \<and> (\<forall>x. startingPot = Num x \<and> 0 < x \<longrightarrow>
             simulateDecumulation fd startingPot = resultOf (decumLoop fd (initialState fd x))
           \<and> (total (pots (decumLoop fd (initialState fd x))) < 1
              \<or> (100 - formData.retirementAge fd) * 12
                  \<le> int (months (decumLoop fd (initialState fd x)))))"
proof (cases "\<exists>x. startingPot = Num x \<and> 0 < x")
  case True
  then obtain x where x: "startingPot = Num x" "0 < x"
    by blast
  have st: "stopped fd (decumLoop fd (initialState fd x))"
    by (rule decumLoop_stopped [OF recorded_initialState]) (simp add: initialState_def)
  have sim: "simulateDecumulation fd (Num x) = resultOf (decumLoop fd (initialState fd x))"
    using x by (simp add: simulateDecumulation_def falsy_def isNaN_def leZero_def)
  show ?thesis
    using st x
    by (auto simp: sim resultOf_def stopped_def maxMonths_def in_set_conv_nth list_all_iff)
next
  case False
  then have "simulateDecumulation fd startingPot = degenerate"
    by (cases startingPot)
       (auto simp: simulateDecumulation_def falsy_def isNaN_def leZero_def)
  then show ?thesis
    using False assms(2) by (auto simp: degenerate_def)
qed

theorem decumulation_terminates_bounded_witness:
  "validPlan exampleForm \<and> formData.retirementAge exampleForm < 100
   \<and> length (decumulation.withdrawals (simulateDecumulation exampleForm (Num 100000))) \<le> 420
   \<and> list_all (\<lambda>series. length series \<le> 420)
        (decumulation.funds (simulateDecumulation exampleForm (Num 100000)))
   \<and> (total (pots (decumLoop exampleForm (initialState exampleForm 100000))) < 1
      \<or> 420 \<le> int (months (decumLoop exampleForm (initialState exampleForm 100000))))
   \<and> decumulation.funds (simulateDecumulation exampleForm Undefined) = [replicate 12 0]"
proof -
  have e: "formData.retirementAge exampleForm = 65"
    by (simp add: exampleForm_def)
  have r: "formData.retirementAge exampleForm < 100"
    by (simp add: e)
  have deg: "decumulation.funds (simulateDecumulation exampleForm Undefined) = [replicate 12 0]"
    by (simp add: simulateDecumulation_def falsy_def degenerate_def)
  show ?thesis
    using decumulation_terminates_bounded [OF validPlan_example r, of "Num 100000"]
    by (auto simp add: validPlan_example e deg)
qed

subsection \<open>Balances never go negative\<close>

lemma nonneg_update: "nonneg ps \<Longrightarrow> 0 \<le> v \<Longrightarrow> nonneg (ps[k := v])"
proof (cases "k < length ps")
  case True
  assume "nonneg ps" and "0 \<le> v"
  then show ?thesis
    using True by (simp add: nonneg_def nth_list_update)
next
  case False
  assume "nonneg ps"
  then show ?thesis
    using False by (simp add: list_update_beyond)
qed

lemma nonneg_nth: "nonneg ps \<Longrightarrow> j < length ps \<Longrightarrow> 0 \<le> ps ! j"
  by (simp add: nonneg_def)

lemma nonneg_withdraw: "nonneg (pots s) \<Longrightarrow> nonneg (pots (withdraw fd s))"
  by (simp add: withdraw_def withdrawal_def nonneg_update)

lemma nonneg_applyReturns: "nonneg (pots s) \<Longrightarrow> nonneg (pots (applyReturns fd s))"
  by (simp add: nonneg_def applyReturns_def
      fold_update_nth [where f = "\<lambda>i p. max 0 (p * (1 + returns fd ! i))"])

lemma nonneg_rebalance:
  assumes "nonneg (pots s)"
  shows "nonneg (pots (rebalance fd s))"
proof -
  let ?active = "length (filter (\<lambda>pot. pot > 0) (pots s))"
  let ?activePots = "map (\<lambda>pot. if pot > 0 then total (pots s) / real ?active else 0) (pots s)"
  have "0 \<le> total (pots s) / real ?active"
    using nonneg_total [OF assms] by simp
  then have "j < length (pots s) \<Longrightarrow> 0 \<le> ?activePots ! j" for j
    by simp
  then show ?thesis
    using assms
    by (simp add: nonneg_def rebalance_def Let_def
        fold_update_nth [where f = "\<lambda>i p. ?activePots ! i"])
qed

lemma nonneg_consolidate:
  assumes "nonneg (pots s)"
  shows "nonneg (pots (consolidate fd w s))"
proof (cases "find (\<lambda>i. pots s ! 0 < w * 12 \<and> \<not> movedFunds s ! i \<and> pots s ! (i + 1) > 0)
             [0..<nat (numFunds fd - 1)]")
  case None
  then show ?thesis
    using assms by (simp add: consolidate_def)
next
  case (Some i)
  then have "pots s ! (i + 1) > 0"
    by (auto simp: find_Some_iff)
  moreover have "0 \<le> pots s ! 0" if "pots s \<noteq> []"
    using that assms by (simp add: nonneg_def)
  ultimately have "nonneg ((pots s)[0 := pots s ! 0 + pots s ! (i + 1)])"
    using assms by (cases "pots s = []") (simp_all add: nonneg_update)
  then show ?thesis
    using Some by (simp add: consolidate_def nonneg_update)
qed

lemma deRisk_pots_nth:
  assumes "switchAge fd \<le> age s" and "list_ex (\<lambda>pot. pot > 0) (drop 1 (pots s))"
  shows "pots (deRisk fd s) ! j
         = (if 1 \<le> j \<and> j < nat (numFunds fd) \<and> j < length (pots s) then 0
            else ((pots s)[0 := pots s ! 0 + total (drop 1 (pots s))]) ! j)"
  using assms
  by (simp add: deRisk_def Let_def fold_update_nth [where f = "\<lambda>i p. 0"])

lemma nonneg_deRisk:
  assumes "nonneg (pots s)"
  shows "nonneg (pots (deRisk fd s))"
proof (cases "switchAge fd \<le> age s \<and> list_ex (\<lambda>pot. pot > 0) (drop 1 (pots s))")
  case True
  have "0 \<le> total (drop 1 (pots s))"
    by (rule nonneg_total [OF nonneg_drop [OF assms]])
  moreover have "0 \<le> pots s ! 0" if "pots s \<noteq> []"
    using that assms by (simp add: nonneg_def)
  ultimately have "nonneg ((pots s)[0 := pots s ! 0 + total (drop 1 (pots s))])"
    using assms by (cases "pots s = []") (simp_all add: nonneg_update)
  then have "0 \<le> ((pots s)[0 := pots s ! 0 + total (drop 1 (pots s))]) ! j"
    if "j < length (pots s)" for j
    using that by (simp add: nonneg_def)
  then show ?thesis
    using True unfolding nonneg_def
    by (simp add: deRisk_pots_nth deRisk_frame del: One_nat_def)
next
  case False
  then have "deRisk fd s = s"
    by (auto simp: deRisk_def)
  then show ?thesis
    using assms by simp
qed

lemma nonneg_settled: "nonneg (pots s) \<Longrightarrow> nonneg (pots (settled fd s))"
  by (simp add: settled_def yearEnd_frame nonneg_deRisk nonneg_consolidate nonneg_rebalance
      nonneg_applyReturns nonneg_withdraw)

lemma nonneg_monthBody: "nonneg (pots s) \<Longrightarrow> nonneg (pots (monthBody fd s))"
  by (simp add: monthBody_frame nonneg_settled)

subsection \<open>After the sweep\<close>

lemma deRisk_zero:
  assumes "nonneg (pots s)" and "length (pots s) = nat (numFunds fd)"
    and "switchAge fd \<le> age s" and "0 < i" and "i < nat (numFunds fd)"
  shows "pots (deRisk fd s) ! i = 0"
proof (cases "list_ex (\<lambda>pot. pot > 0) (drop 1 (pots s))")
  case True
  then show ?thesis
    using assms by (simp add: deRisk_pots_nth)
next
  case False
  have "pots s ! i \<in> set (drop 1 (pots s))"
    using assms(2,4,5) by (auto simp: in_set_conv_nth intro!: exI [of _ "i - 1"])
  then have "\<not> pots s ! i > 0"
    using False by (auto simp: list_ex_iff)
  moreover have "0 \<le> pots s ! i"
    using assms(1,2,5) by (simp add: nonneg_def)
  moreover have "deRisk fd s = s"
    using False by (simp add: deRisk_def)
  ultimately show ?thesis
    by simp
qed

lemma deRisk_sweep:
  assumes "switchAge fd \<le> age t" and "list_ex (\<lambda>pot. pot > 0) (drop 1 (pots t))"
    and "length (pots t) = nat (numFunds fd)"
  shows "pots (deRisk fd t)
           = (pots t ! 0 + total (drop 1 (pots t))) # replicate (nat (numFunds fd) - 1) 0"
    and "movedFunds (deRisk fd t) = replicate (length (movedFunds t)) True"
proof -
  have pos: "0 < nat (numFunds fd)"
    using assms(2,3) by (cases "pots t") (auto simp: list_ex_iff)
  show "pots (deRisk fd t)
           = (pots t ! 0 + total (drop 1 (pots t))) # replicate (nat (numFunds fd) - 1) 0"
  proof (rule nth_equalityI)
    show "length (pots (deRisk fd t))
            = length ((pots t ! 0 + total (drop 1 (pots t))) # replicate (nat (numFunds fd) - 1) 0)"
      using pos assms(3) by (simp add: deRisk_frame)
  next
    fix j
    assume "j < length (pots (deRisk fd t))"
    then have j: "j < nat (numFunds fd)"
      using assms(3) by (simp add: deRisk_frame)
    show "pots (deRisk fd t) ! j
            = ((pots t ! 0 + total (drop 1 (pots t))) # replicate (nat (numFunds fd) - 1) 0) ! j"
      using j assms(3) pos
      by (cases j) (simp_all add: deRisk_pots_nth [OF assms(1,2)])
  qed
  show "movedFunds (deRisk fd t) = replicate (length (movedFunds t)) True"
    using assms(1,2) by (simp add: deRisk_def Let_def map_replicate_const)
qed

lemma monthBody_swept:
  assumes "nonneg (pots s)" and "length (pots s) = nat (numFunds fd)"
    and "switchAge fd \<le> age s" and "0 < i" and "i < nat (numFunds fd)"
  shows "pots (monthBody fd s) ! i = 0"
proof -
  let ?S = "consolidate fd (withdrawal fd s) (rebalance fd (applyReturns fd (withdraw fd s)))"
  have "nonneg (pots ?S)"
    by (simp add: assms(1) nonneg_consolidate nonneg_rebalance nonneg_applyReturns
        nonneg_withdraw)
  moreover have "length (pots ?S) = nat (numFunds fd)" "age ?S = age s"
    by (simp_all add: frames assms(2))
  ultimately have "pots (deRisk fd ?S) ! i = 0"
    using assms(3,4,5) by (intro deRisk_zero) simp_all
  then show ?thesis
    by (simp add: monthBody_frame settled_def yearEnd_frame)
qed

lemma sound_initialState: "0 \<le> x \<Longrightarrow> sound fd (initialState fd x)"
  by (simp add: sound_def recorded_initialState)
     (simp add: initialState_def nonneg_def)

lemma sound_advance: "sound fd s \<Longrightarrow> sound fd (advance fd (monthBody fd s))"
  by (simp add: sound_def recorded_advance advance_frame monthBody_frame settled_frame
      nonneg_settled)

lemma stateAt_Suc:
  assumes "stateAt fd x (Suc m) = Some s'"
  obtains s where "stateAt fd x m = Some s" and "running fd s"
    and "\<not> total (pots (monthBody fd s)) < 1" and "s' = advance fd (monthBody fd s)"
  using assms by (auto split: option.splits if_splits)

lemma decumLoop_advance:
  "running fd s \<Longrightarrow> \<not> total (pots (monthBody fd s)) < 1
   \<Longrightarrow> decumLoop fd (advance fd (monthBody fd s)) = decumLoop fd s"
  by (subst (2) decumLoop.simps) simp

lemma stateAt_sound:
  assumes "0 \<le> x" and "stateAt fd x m = Some s"
  shows "sound fd s \<and> months s = m \<and> decumLoop fd s = decumLoop fd (initialState fd x)"
  using assms(2)
proof (induction m arbitrary: s)
  case 0
  then show ?case
    using sound_initialState [OF assms(1)] by (auto simp: initialState_def)
next
  case (Suc m)
  from Suc.prems obtain t where t: "stateAt fd x m = Some t" "running fd t"
    "\<not> total (pots (monthBody fd t)) < 1" "s = advance fd (monthBody fd t)"
    by (rule stateAt_Suc)
  show ?case
    using Suc.IH [OF t(1)] t(2,3)
    by (simp add: t(4) sound_advance decumLoop_advance advance_frame monthBody_frame)
qed

lemma stateAt_age_mono:
  assumes "0 \<le> x" and "stateAt fd x m = Some s" and "stateAt fd x m' = Some s'" and "m \<le> m'"
  shows "age s \<le> age s'"
proof -
  have "m div 12 \<le> m' div 12"
    using assms(4) by (rule div_le_mono)
  then show ?thesis
    using stateAt_sound [OF assms(1,2)] stateAt_sound [OF assms(1,3)]
    by (simp add: sound_def)
qed

subsection \<open>The fixed drawdown amount stays non-negative\<close>

lemma monthBody_currentDrawdownFixed:
  assumes "0 \<le> inflationRate fd" and "0 \<le> currentDrawdownFixed s"
  shows "0 \<le> currentDrawdownFixed (monthBody fd s)"
proof -
  have "0 \<le> currentDrawdownFixed (yearEnd fd t)" if "0 \<le> currentDrawdownFixed t" for t
    using that assms(1) by (simp add: yearEnd_def)
  then show ?thesis
    using assms(2) by (simp add: monthBody_settled recordMonth_frame settled_def frames)
qed

lemma stateAt_currentDrawdownFixed:
  assumes "validPlan fd" and "0 \<le> x" and "stateAt fd x m = Some s"
  shows "0 \<le> currentDrawdownFixed s"
  using assms(3)
proof (induction m arbitrary: s)
  case 0
  then show ?case
    using assms(1,2)
    by (auto simp: initialState_def baseDrawdownFixed_def validPlan_def)
next
  case (Suc m)
  from Suc.prems obtain t where t: "stateAt fd x m = Some t" "s = advance fd (monthBody fd t)"
    by (rule stateAt_Suc)
  have "0 \<le> inflationRate fd"
    using assms(1) by (simp add: validPlan_def)
  then show ?case
    using Suc.IH [OF t(1)]
    by (simp add: t(2) advance_frame monthBody_currentDrawdownFixed)
qed

subsection \<open>What a month appends stays in the result\<close>

lemma decumLoop_prefix:
  "recorded fd s \<Longrightarrow>
     prefix (withdrawals s) (withdrawals (decumLoop fd s))
   \<and> (\<forall>i<nat (numFunds fd). prefix (fundBalances s ! i) (fundBalances (decumLoop fd s) ! i))"
proof (induction fd s rule: decumLoop.induct)
  case (1 fd s)
  have fb: "length (fundBalances s) = nat (numFunds fd)"
    using "1.prems" by (simp add: recorded_def)
  show ?case
  proof (cases "running fd s")
    case False
    then have "decumLoop fd s = s"
      by (subst decumLoop.simps) simp
    then show ?thesis by simp
  next
    case True
    show ?thesis
    proof (cases "total (pots (monthBody fd s)) < 1")
      case broke: True
      then have "decumLoop fd s = flush (monthBody fd s)"
        using True by (subst decumLoop.simps) simp
      then show ?thesis
        using fb by (simp add: flush_frame monthBody_frame monthBody_fundBalances)
    next
      case False
      have "prefix (withdrawals (monthBody fd s)) (withdrawals (decumLoop fd s))
          \<and> (\<forall>i<nat (numFunds fd).
                prefix (fundBalances (monthBody fd s) ! i) (fundBalances (decumLoop fd s) ! i))"
        using "1.IH" [OF True False recorded_advance [OF "1.prems"]]
        by (simp add: decumLoop_advance [OF True False] advance_frame)
      then show ?thesis
        using fb
        by (auto simp: monthBody_frame monthBody_fundBalances dest: append_prefixD)
    qed
  qed
qed

lemma month_recorded:
  assumes "recorded fd s" and "running fd s"
  shows "months s < length (withdrawals (decumLoop fd s))"
    and "withdrawals (decumLoop fd s) ! months s = withdrawal fd s"
    and "i < nat (numFunds fd) \<Longrightarrow> months s < length (fundBalances (decumLoop fd s) ! i)"
    and "i < nat (numFunds fd) \<Longrightarrow>
           fundBalances (decumLoop fd s) ! i ! months s = pots (monthBody fd s) ! i"
proof -
  let ?t = "monthBody fd s"
  let ?r = "decumLoop fd s"
  have fb: "length (fundBalances s) = nat (numFunds fd)"
    and ws: "length (withdrawals s) = months s"
    and bs: "\<forall>i<nat (numFunds fd). length (fundBalances s ! i) = months s"
    using assms(1) by (simp_all add: recorded_def)
  have pre: "prefix (withdrawals ?t) (withdrawals ?r)
      \<and> (\<forall>i<nat (numFunds fd). prefix (fundBalances ?t ! i) (fundBalances ?r ! i))"
  proof (cases "total (pots ?t) < 1")
    case True
    then have "?r = flush ?t"
      using assms(2) by (subst decumLoop.simps) simp
    then show ?thesis
      by (simp add: flush_frame)
  next
    case False
    show ?thesis
      using decumLoop_prefix [OF recorded_advance [OF assms(1)]]
      by (simp add: decumLoop_advance [OF assms(2) False] advance_frame)
  qed
  have w: "prefix (withdrawals s @ [withdrawal fd s]) (withdrawals ?r)"
    using pre by (simp add: monthBody_frame)
  show "months s < length (withdrawals ?r)"
    using prefix_length_le [OF w] ws by simp
  have "(withdrawals s @ [withdrawal fd s]) ! months s = withdrawal fd s"
    using ws by (metis nth_append_length)
  then show "withdrawals ?r ! months s = withdrawal fd s"
    using prefix_nth [OF w, of "months s"] ws by simp
  have b: "prefix (fundBalances s ! i @ [pots ?t ! i]) (fundBalances ?r ! i)"
    if "i < nat (numFunds fd)"
    using pre that fb by (simp add: monthBody_fundBalances)
  show "months s < length (fundBalances ?r ! i)" if "i < nat (numFunds fd)"
    using prefix_length_le [OF b [OF that]] bs that by simp
  show "fundBalances ?r ! i ! months s = pots ?t ! i" if "i < nat (numFunds fd)"
  proof -
    have "(fundBalances s ! i @ [pots ?t ! i]) ! months s = pots ?t ! i"
      using bs that by (metis nth_append_length)
    then show ?thesis
      using prefix_nth [OF b [OF that], of "months s"] bs that by simp
  qed
qed

lemma recorded_month_simulated:
  "stateAt fd x (months s) = Some s \<Longrightarrow> recorded fd s \<Longrightarrow> months s \<le> m
   \<Longrightarrow> m < length (withdrawals (decumLoop fd s))
   \<Longrightarrow> \<exists>s'. stateAt fd x m = Some s' \<and> running fd s'"
proof (induction fd s rule: decumLoop.induct)
  case (1 fd s)
  have ws: "length (withdrawals s) = months s"
    using "1.prems"(2) by (simp add: recorded_def)
  show ?case
  proof (cases "running fd s")
    case False
    then have "decumLoop fd s = s"
      by (subst decumLoop.simps) simp
    then show ?thesis
      using "1.prems"(3,4) ws by simp
  next
    case True
    show ?thesis
    proof (cases "m = months s")
      case same: True
      then show ?thesis
        using True "1.prems"(1) by auto
    next
      case later: False
      show ?thesis
      proof (cases "total (pots (monthBody fd s)) < 1")
        case broke: True
        then have "decumLoop fd s = flush (monthBody fd s)"
          using True by (subst decumLoop.simps) simp
        then show ?thesis
          using "1.prems"(3,4) ws later by (simp add: flush_frame monthBody_frame)
      next
        case False
        have at: "stateAt fd x (months (advance fd (monthBody fd s)))
                    = Some (advance fd (monthBody fd s))"
          using "1.prems"(1) True False by (simp add: advance_frame monthBody_frame)
        show ?thesis
          using "1.IH" [OF True False at recorded_advance [OF "1.prems"(2)]]
            "1.prems"(3,4) later
          by (simp add: decumLoop_advance [OF True False] advance_frame monthBody_frame)
      qed
    qed
  qed
qed

lemma simulateDecumulation_positive:
  "0 < x \<Longrightarrow> simulateDecumulation fd (Num x) = resultOf (decumLoop fd (initialState fd x))"
  by (simp add: simulateDecumulation_def falsy_def isNaN_def leZero_def)

lemma months_initialState: "months (initialState fd x) = 0"
  by (simp add: initialState_def)

lemma stateAt_initialState: "stateAt fd x (months (initialState fd x)) = Some (initialState fd x)"
  by (simp add: months_initialState)

lemma pots_initialState_example:
  "pots (initialState (exampleForm\<lparr>ageToLowRiskFund := a\<rparr>) 100000)
     = [100000 / 3, 100000 / 3, 100000 / 3]"
  by (simp add: initialState_def exampleForm_def numeral_3_eq_3)

lemma running_initialState_example:
  "running (exampleForm\<lparr>ageToLowRiskFund := a\<rparr>) (initialState (exampleForm\<lparr>ageToLowRiskFund := a\<rparr>) 100000)"
  by (simp add: running_def initialState_def exampleForm_def total_def maxMonths_def
      numeral_3_eq_3)

subsection \<open>The pots at the end of a month\<close>

text \<open>
  Returns are applied to the balances the withdrawal has left; rebalancing,
  consolidation and the sweep move money between pots and keep the total.
\<close>

lemma pots_applyReturns:
  assumes "length (pots t) = nat (numFunds fd)"
  shows "pots (applyReturns fd t)
           = map (\<lambda>i. max 0 (pots t ! i * (1 + returns fd ! i))) [0..<nat (numFunds fd)]"
proof (rule nth_equalityI)
  show "length (pots (applyReturns fd t))
          = length (map (\<lambda>i. max 0 (pots t ! i * (1 + returns fd ! i))) [0..<nat (numFunds fd)])"
    using assms by (simp add: applyReturns_frame)
next
  fix j
  assume "j < length (pots (applyReturns fd t))"
  then have "j < nat (numFunds fd)"
    using assms by (simp add: applyReturns_frame)
  then show "pots (applyReturns fd t) ! j
          = map (\<lambda>i. max 0 (pots t ! i * (1 + returns fd ! i))) [0..<nat (numFunds fd)] ! j"
    using assms
    by (simp add: applyReturns_def
        fold_update_nth [where f = "\<lambda>i p. max 0 (p * (1 + returns fd ! i))"])
qed

lemma sum_list_shares:
  fixes ps :: "real list"
  shows "sum_list (map (\<lambda>pot. if pot > 0 then c else 0) ps)
           = c * real (length (filter (\<lambda>pot. pot > 0) ps))"
  by (induction ps) (simp_all add: algebra_simps)

lemma total_rebalance:
  assumes "length (pots t) = nat (numFunds fd)"
  shows "total (pots (rebalance fd t)) = total (pots t)"
proof (cases "months t mod 12 = 11 \<and> 1 < length (filter (\<lambda>pot. pot > 0) (pots t))")
  case False
  then have "rebalance fd t = t"
    by (auto simp: rebalance_def Let_def)
  then show ?thesis by simp
next
  case True
  let ?active = "length (filter (\<lambda>pot. pot > 0) (pots t))"
  let ?activePots = "map (\<lambda>pot. if pot > 0 then total (pots t) / real ?active else 0) (pots t)"
  have "pots (rebalance fd t) = ?activePots"
  proof (rule nth_equalityI)
    show "length (pots (rebalance fd t)) = length ?activePots"
      by (simp add: rebalance_frame)
  next
    fix j
    assume "j < length (pots (rebalance fd t))"
    then have "j < nat (numFunds fd)" "j < length (pots t)"
      using assms by (simp_all add: rebalance_frame)
    then show "pots (rebalance fd t) ! j = ?activePots ! j"
      using True
      by (simp add: rebalance_def Let_def fold_update_nth [where f = "\<lambda>i p. ?activePots ! i"])
  qed
  then have "total (pots (rebalance fd t)) = total (pots t) / real ?active * real ?active"
    by (simp add: total_sum_list sum_list_shares)
  moreover have "real ?active \<noteq> 0"
    using True by auto
  ultimately show ?thesis
    by simp
qed

lemma total_consolidate:
  assumes "length (pots t) = nat (numFunds fd)"
  shows "total (pots (consolidate fd w t)) = total (pots t)"
proof (cases "find (\<lambda>i. pots t ! 0 < w * 12 \<and> \<not> movedFunds t ! i \<and> pots t ! (i + 1) > 0)
             [0..<nat (numFunds fd - 1)]")
  case None
  then show ?thesis
    by (simp add: consolidate_def)
next
  case (Some i)
  then have "i < nat (numFunds fd - 1)"
    by (auto simp: find_Some_iff)
  then have i: "Suc i < length (pots t)"
    using assms by linarith
  let ?ps = "(pots t)[0 := pots t ! 0 + pots t ! (i + 1)]"
  have "sum_list ?ps = sum_list (pots t) + (pots t ! 0 + pots t ! (i + 1)) - pots t ! 0"
    using i by (intro sum_list_update_real) auto
  moreover have "sum_list (?ps[i + 1 := 0]) = sum_list ?ps + 0 - ?ps ! (i + 1)"
    using i by (intro sum_list_update_real) simp
  moreover have "?ps ! (i + 1) = pots t ! (i + 1)"
    by simp
  ultimately have "sum_list (?ps[i + 1 := 0]) = sum_list (pots t)"
    by simp
  then show ?thesis
    using Some by (simp add: consolidate_def total_sum_list)
qed

lemma total_deRisk:
  assumes "length (pots t) = nat (numFunds fd)"
  shows "total (pots (deRisk fd t)) = total (pots t)"
proof (cases "switchAge fd \<le> age t \<and> list_ex (\<lambda>pot. pot > 0) (drop 1 (pots t))")
  case False
  then have "deRisk fd t = t"
    by (auto simp: deRisk_def)
  then show ?thesis by simp
next
  case True
  then obtain p ps where ps: "pots t = p # ps"
    by (cases "pots t") (auto simp: list_ex_iff)
  show ?thesis
    using deRisk_sweep(1) [of fd t] True assms
    by (simp add: ps total_sum_list sum_list_replicate)
qed

lemma total_monthBody:
  assumes "length (pots s) = nat (numFunds fd)"
  shows "total (pots (monthBody fd s))
           = total (map (\<lambda>i. max 0 (((pots s)[0 := pots s ! 0 - withdrawal fd s]) ! i
                                       * (1 + returns fd ! i)))
                      [0..<nat (numFunds fd)])"
proof -
  let ?a = "applyReturns fd (withdraw fd s)"
  have len: "length (pots (withdraw fd s)) = nat (numFunds fd)"
    by (simp add: withdraw_frame assms)
  have "total (pots (monthBody fd s))
          = total (pots (deRisk fd (consolidate fd (withdrawal fd s) (rebalance fd ?a))))"
    by (simp add: monthBody_frame settled_def yearEnd_frame)
  also have "\<dots> = total (pots (consolidate fd (withdrawal fd s) (rebalance fd ?a)))"
    by (rule total_deRisk) (simp add: frames assms)
  also have "\<dots> = total (pots (rebalance fd ?a))"
    by (rule total_consolidate) (simp add: frames assms)
  also have "\<dots> = total (pots ?a)"
    by (rule total_rebalance) (simp add: frames assms)
  also have "pots ?a = map (\<lambda>i. max 0 (pots (withdraw fd s) ! i * (1 + returns fd ! i)))
                          [0..<nat (numFunds fd)]"
    by (rule pots_applyReturns [OF len])
  finally show ?thesis
    by (simp add: withdraw_def)
qed

text \<open>
  C3. In every simulated month of a validated plan (\<open>s\<close> is the state at the head of
  month \<open>m\<close>, and the loop condition holds) the withdrawal \<open>w\<close> that the run records for
  the month is the minimum of the policy amount and fund 0's balance, and it is not
  negative. The month debits it from fund 0 and from no other pot: the pots at the end
  of the month, and the balances the run records for the month, add up to the sum over
  the funds of \<open>max(0, q[i] * (1 + returns[i]))\<close>, where \<open>q\<close> is the list of pots with
  \<open>w\<close> taken off fund 0. In \<open>q\<close>, right after the withdrawal and before the returns,
  fund 0 is not negative and the total is at most the total before the withdrawal;
  the balance recorded for fund 0 is not negative either.
\<close>

theorem withdrawal_clamped_to_fund0:
  fixes fd :: planInput and s :: decState and w :: real and q :: "real list"
  defines "w \<equiv> min (policyWithdrawal fd s) (pots s ! 0)"
    and "q \<equiv> (pots s)[0 := pots s ! 0 - w]"
  assumes "validPlan fd" and "length (formData.funds fd) = nat (numFunds fd)" and "0 < x"
    and "stateAt fd x m = Some s" and "running fd s"
  shows "decumulation.withdrawals (simulateDecumulation fd (Num x)) ! m = w
       \<and> 0 \<le> w
       \<and> total (pots (monthBody fd s))
           = total (map (\<lambda>i. max 0 (q ! i * (1 + returns fd ! i))) [0..<nat (numFunds fd)])
       \<and> total (map (\<lambda>i. decumulation.funds (simulateDecumulation fd (Num x)) ! i ! m)
                  [0..<nat (numFunds fd)])
           = total (map (\<lambda>i. max 0 (q ! i * (1 + returns fd ! i))) [0..<nat (numFunds fd)])
       \<and> 0 \<le> q ! 0
       \<and> total q \<le> total (pots s)
       \<and> 0 \<le> decumulation.funds (simulateDecumulation fd (Num x)) ! 0 ! m"
proof -
  have x: "0 \<le> x"
    using assms(5) by simp
  have snd: "sound fd s" and m: "months s = m"
    and fin: "decumLoop fd s = decumLoop fd (initialState fd x)"
    using stateAt_sound [OF x assms(6)] by simp_all
  have n: "0 < nat (numFunds fd)"
    using assms(3) by (simp add: validPlan_def)
  have len: "length (pots s) = nat (numFunds fd)" and nn: "nonneg (pots s)"
    and rec: "recorded fd s"
    using snd by (simp_all add: sound_def)
  have p0: "0 \<le> pots s ! 0"
    using nn len n by (simp add: nonneg_def)
  have "0 \<le> policyWithdrawal fd s"
  proof (cases "drawdownType fd = Percentage")
    case True
    then have "0 \<le> drawdownRate fd"
      using assms(3) by (simp add: drawdownRate_def validPlan_def)
    then show ?thesis
      using True nonneg_total [OF nn] by (simp add: policyWithdrawal_def)
  next
    case False
    then show ?thesis
      using stateAt_currentDrawdownFixed [OF assms(3) x assms(6)]
      by (simp add: policyWithdrawal_def)
  qed
  then have w: "0 \<le> w"
    using p0 by (simp add: w_def)
  have wd: "withdrawal fd s = w"
    by (simp add: withdrawal_def w_def)
  have after: "0 \<le> q ! 0"
    using len n by (simp add: q_def w_def)
  have tot: "total q \<le> total (pots s)"
    using w len n by (simp add: q_def total_sum_list sum_list_update_real)
  have recd: "decumulation.withdrawals (simulateDecumulation fd (Num x)) ! m = w"
    using month_recorded(2) [OF rec assms(7)]
    by (simp add: simulateDecumulation_positive [OF assms(5)] resultOf_def fin m wd)
  have body: "total (pots (monthBody fd s))
           = total (map (\<lambda>i. max 0 (q ! i * (1 + returns fd ! i))) [0..<nat (numFunds fd)])"
    using total_monthBody [OF len] by (simp add: wd q_def)
  have funds: "decumulation.funds (simulateDecumulation fd (Num x)) ! i ! m
                 = pots (monthBody fd s) ! i" if "i < nat (numFunds fd)" for i
    using month_recorded(4) [OF rec assms(7) that]
    by (simp add: simulateDecumulation_positive [OF assms(5)] resultOf_def fin m)
  have "map (\<lambda>i. decumulation.funds (simulateDecumulation fd (Num x)) ! i ! m)
            [0..<nat (numFunds fd)]
          = map (\<lambda>i. pots (monthBody fd s) ! i) [0..<nat (numFunds fd)]"
    using funds by simp
  also have "\<dots> = pots (monthBody fd s)"
    using map_nth [of "pots (monthBody fd s)"] by (simp add: monthBody_frame(4) len)
  finally have out: "total (map (\<lambda>i. decumulation.funds (simulateDecumulation fd (Num x)) ! i ! m)
                  [0..<nat (numFunds fd)])
           = total (map (\<lambda>i. max 0 (q ! i * (1 + returns fd ! i))) [0..<nat (numFunds fd)])"
    using body by simp
  have "nonneg (pots (monthBody fd s))"
    by (rule nonneg_monthBody [OF nn])
  then have "0 \<le> pots (monthBody fd s) ! 0"
    using len n by (intro nonneg_nth) (simp_all add: monthBody_frame(4))
  then have bal: "0 \<le> decumulation.funds (simulateDecumulation fd (Num x)) ! 0 ! m"
    using funds [OF n] by simp
  show ?thesis
    using recd w body out after tot bal by simp
qed

theorem withdrawal_clamped_to_fund0_witness:
  "validPlan fixedForm \<and> length (formData.funds fixedForm) = nat (numFunds fixedForm)
   \<and> (0::real) < 100000
   \<and> stateAt fixedForm 100000 0 = Some (initialState fixedForm 100000)
   \<and> running fixedForm (initialState fixedForm 100000)
   \<and> policyWithdrawal fixedForm (initialState fixedForm 100000) = 50000
   \<and> pots (initialState fixedForm 100000) ! 0 = 100000 / 3
   \<and> decumulation.withdrawals (simulateDecumulation fixedForm (Num 100000)) ! 0 = 100000 / 3
   \<and> total (pots (monthBody fixedForm (initialState fixedForm 100000))) = 602200 / 9
   \<and> total (map (\<lambda>i. decumulation.funds (simulateDecumulation fixedForm (Num 100000)) ! i ! 0)
              [0..<3]) = 602200 / 9"
proof -
  let ?s = "initialState fixedForm 100000"
  have v: "validPlan fixedForm"
    by (simp add: validPlan_def fixedForm_def exampleForm_def)
  have n: "nat (numFunds fixedForm) = 3"
    by (simp add: fixedForm_def exampleForm_def)
  have sync: "length (formData.funds fixedForm) = nat (numFunds fixedForm)"
    by (simp add: fixedForm_def exampleForm_def)
  have p: "pots ?s = [100000 / 3, 100000 / 3, 100000 / 3]"
    by (simp add: initialState_def fixedForm_def exampleForm_def numeral_3_eq_3)
  have pol: "policyWithdrawal fixedForm ?s = 50000"
    by (simp add: policyWithdrawal_def initialState_def baseDrawdownFixed_def fixedForm_def
        exampleForm_def)
  have run: "running fixedForm ?s"
    by (simp add: running_def p total_def maxMonths_def months_initialState)
       (simp add: fixedForm_def exampleForm_def)
  have ret: "returns fixedForm = [0.025 / 12, 0.035 / 12, 0.053 / 12]"
    by (simp add: returns_def fixedForm_def exampleForm_def)
  have pos: "(0::real) < 100000"
    by simp
  have at: "stateAt fixedForm 100000 0 = Some ?s"
    by simp
  have idx: "[0..<3] = [0, 1, 2]"
    by (simp add: numeral_3_eq_3)
  show ?thesis
    using withdrawal_clamped_to_fund0 [OF v sync pos at run]
    by (simp add: v sync run pol p n ret idx total_def)
qed

text \<open>
  C4. On a form with one fund choice for each pot and a positive starting pot, for a
  pot index \<open>i > 0\<close>: in every simulated month whose age has reached the
  low-risk-switch age, the balance of fund \<open>i\<close> at the end of the month's body is zero
  and is what the result records for that month, and every later month has reached the
  switch age too. So every recorded monthly balance of fund \<open>i\<close> from the first such
  month onward (month \<open>m\<close> has age \<open>retirementAge + floor(m / 12)\<close>) is zero. When
  the sweep fires, it puts the sum of all pots into fund 0, empties every other pot and
  sets every \<open>movedFunds\<close> flag, in that one step.
\<close>

theorem derisked_funds_stay_zero:
  assumes "length (formData.funds fd) = nat (numFunds fd)" and "0 < x"
    and "0 < i" and "i < nat (numFunds fd)"
  shows "(\<forall>m s. stateAt fd x m = Some s \<and> running fd s \<and> switchAge fd \<le> age s \<longrightarrow>
            pots (monthBody fd s) ! i = 0
          \<and> m < length (decumulation.funds (simulateDecumulation fd (Num x)) ! i)
          \<and> decumulation.funds (simulateDecumulation fd (Num x)) ! i ! m = 0
          \<and> (\<forall>m' s'. m \<le> m' \<and> stateAt fd x m' = Some s' \<longrightarrow> switchAge fd \<le> age s'))
       \<and> (\<forall>m < length (decumulation.funds (simulateDecumulation fd (Num x)) ! i).
            switchAge fd \<le> formData.retirementAge fd + int (m div 12) \<longrightarrow>
            decumulation.funds (simulateDecumulation fd (Num x)) ! i ! m = 0)
       \<and> (\<forall>t. switchAge fd \<le> age t \<and> list_ex (\<lambda>pot. pot > 0) (drop 1 (pots t))
              \<and> length (pots t) = nat (numFunds fd) \<longrightarrow>
            pots (deRisk fd t)
              = (pots t ! 0 + total (drop 1 (pots t))) # replicate (nat (numFunds fd) - 1) 0
          \<and> movedFunds (deRisk fd t) = replicate (length (movedFunds t)) True)"
proof -
  let ?r = "decumLoop fd (initialState fd x)"
  have x: "0 \<le> x"
    using assms(2) by simp
  have sim: "decumulation.funds (simulateDecumulation fd (Num x)) = fundBalances ?r"
    by (simp add: simulateDecumulation_positive [OF assms(2)] resultOf_def)
  have month: "pots (monthBody fd s) ! i = 0 \<and> m < length (fundBalances ?r ! i)
             \<and> fundBalances ?r ! i ! m = 0"
    if at: "stateAt fd x m = Some s" and run: "running fd s" and old: "switchAge fd \<le> age s"
    for m s
  proof -
    have snd: "sound fd s" and m: "months s = m" and fin: "decumLoop fd s = ?r"
      using stateAt_sound [OF x at] by simp_all
    have zero: "pots (monthBody fd s) ! i = 0"
      using snd old assms(3,4) by (intro monthBody_swept) (simp_all add: sound_def)
    have rec: "recorded fd s"
      using snd by (simp add: sound_def)
    show ?thesis
      using month_recorded(3,4) [OF rec run assms(4)] zero by (simp add: fin m)
  qed
  have later: "switchAge fd \<le> age s'"
    if "stateAt fd x m = Some s" "switchAge fd \<le> age s" "m \<le> m'" "stateAt fd x m' = Some s'"
    for m s m' s'
    using stateAt_age_mono [OF x that(1,4,3)] that(2) by simp
  have out: "fundBalances ?r ! i ! m = 0"
    if len: "m < length (fundBalances ?r ! i)"
      and old: "switchAge fd \<le> formData.retirementAge fd + int (m div 12)" for m
  proof -
    have st: "stopped fd ?r"
      by (rule decumLoop_stopped [OF recorded_initialState]) (simp add: initialState_def)
    then have "m < length (withdrawals ?r)"
      using len assms(4) by (simp add: stopped_def)
    then obtain s where s: "stateAt fd x m = Some s" "running fd s"
      using recorded_month_simulated [OF stateAt_initialState recorded_initialState, where m = m]
      by (auto simp: months_initialState)
    have "age s = formData.retirementAge fd + int (m div 12)"
      using stateAt_sound [OF x s(1)] by (simp add: sound_def)
    then show ?thesis
      using month [OF s] old by simp
  qed
  have sweep: "pots (deRisk fd t)
              = (pots t ! 0 + total (drop 1 (pots t))) # replicate (nat (numFunds fd) - 1) 0
          \<and> movedFunds (deRisk fd t) = replicate (length (movedFunds t)) True"
    if "switchAge fd \<le> age t" "list_ex (\<lambda>pot. pot > 0) (drop 1 (pots t))"
      "length (pots t) = nat (numFunds fd)" for t
    using deRisk_sweep [OF that] by simp
  have 1: "\<forall>m s. stateAt fd x m = Some s \<and> running fd s \<and> switchAge fd \<le> age s \<longrightarrow>
            pots (monthBody fd s) ! i = 0
          \<and> m < length (fundBalances ?r ! i)
          \<and> fundBalances ?r ! i ! m = 0
          \<and> (\<forall>m' s'. m \<le> m' \<and> stateAt fd x m' = Some s' \<longrightarrow> switchAge fd \<le> age s')"
    using month later by blast
  have 2: "\<forall>m < length (fundBalances ?r ! i).
            switchAge fd \<le> formData.retirementAge fd + int (m div 12) \<longrightarrow>
            fundBalances ?r ! i ! m = 0"
    using out by blast
  show ?thesis
    unfolding sim using 1 2 sweep by (intro conjI allI impI) blast+
qed

theorem derisked_funds_stay_zero_witness:
  "length (formData.funds earlySwitchForm) = nat (numFunds earlySwitchForm)
   \<and> (0::real) < 100000 \<and> (0::nat) < 1 \<and> 1 < nat (numFunds earlySwitchForm)
   \<and> stateAt earlySwitchForm 100000 0 = Some (initialState earlySwitchForm 100000)
   \<and> running earlySwitchForm (initialState earlySwitchForm 100000)
   \<and> switchAge earlySwitchForm \<le> age (initialState earlySwitchForm 100000)
   \<and> 0 < length (decumulation.funds (simulateDecumulation earlySwitchForm (Num 100000)) ! 1)
   \<and> switchAge earlySwitchForm \<le> formData.retirementAge earlySwitchForm + int (0 div 12)
   \<and> decumulation.funds (simulateDecumulation earlySwitchForm (Num 100000)) ! 1 ! 0 = 0
   \<and> list_ex (\<lambda>pot. pot > 0) (drop 1 (pots (initialState earlySwitchForm 100000)))
   \<and> pots (deRisk earlySwitchForm (initialState earlySwitchForm 100000)) = [100000, 0, 0]
   \<and> movedFunds (deRisk earlySwitchForm (initialState earlySwitchForm 100000)) = [True, True]"
proof -
  let ?s = "initialState earlySwitchForm 100000"
  have sync: "length (formData.funds earlySwitchForm) = nat (numFunds earlySwitchForm)"
    and i: "1 < nat (numFunds earlySwitchForm)"
    by (simp_all add: earlySwitchForm_def exampleForm_def)
  have run: "running earlySwitchForm ?s"
    unfolding earlySwitchForm_def by (rule running_initialState_example)
  have old: "switchAge earlySwitchForm \<le> age ?s"
    by (simp add: switchAge_def initialState_def earlySwitchForm_def exampleForm_def)
  have at: "stateAt earlySwitchForm 100000 0 = Some ?s"
    by simp
  have p: "pots ?s = [100000 / 3, 100000 / 3, 100000 / 3]"
    unfolding earlySwitchForm_def by (rule pots_initialState_example)
  have mv: "movedFunds ?s = [False, False]"
    by (simp add: initialState_def earlySwitchForm_def exampleForm_def numeral_2_eq_2)
  have ex: "list_ex (\<lambda>pot. pot > 0) (drop 1 (pots ?s))"
    by (simp add: p)
  have nf: "nat (numFunds earlySwitchForm) = 3"
    by (simp add: earlySwitchForm_def exampleForm_def)
  have n: "length (pots ?s) = nat (numFunds earlySwitchForm)"
    by (simp add: p nf)
  have pos: "(0::real) < 100000"
    by simp
  note inst = derisked_funds_stay_zero [OF sync pos zero_less_one i]
  have "0 < length (decumulation.funds (simulateDecumulation earlySwitchForm (Num 100000)) ! 1)
      \<and> decumulation.funds (simulateDecumulation earlySwitchForm (Num 100000)) ! 1 ! 0 = 0"
    using inst at run old by blast
  moreover have "pots (deRisk earlySwitchForm ?s)
              = (pots ?s ! 0 + total (drop 1 (pots ?s))) # replicate (nat (numFunds earlySwitchForm) - 1) 0
          \<and> movedFunds (deRisk earlySwitchForm ?s) = replicate (length (movedFunds ?s)) True"
    using inst old ex n by blast
  then have "pots (deRisk earlySwitchForm ?s) = [100000, 0, 0]
          \<and> movedFunds (deRisk earlySwitchForm ?s) = [True, True]"
    by (simp add: p mv nf total_def numeral_2_eq_2)
  ultimately show ?thesis
    using sync i run old ex
    by (simp add: switchAge_def earlySwitchForm_def exampleForm_def)
qed

text \<open>
  C6. When the starting pot is absent (\<open>undefined\<close>), not a number (\<open>NaN\<close>) or
  \<open>\<le> 0\<close>, the simulator returns the fixed result of its first line, whatever the
  form holds: one fund series of twelve zeros and one zero in each of the other four
  series. Every value in it is zero, and the loop is not involved.
\<close>

theorem degenerate_starting_pot:
  assumes "startingPot = Undefined \<or> startingPot = NaN \<or> (\<exists>x. startingPot = Num x \<and> x \<le> 0)"
  shows "simulateDecumulation fd startingPot
           = \<lparr>decumulation.funds = [replicate 12 0], decumulation.withdrawals = [0],
              decumulation.annualWithdrawals = [0],
              decumulation.statePensionMonthlyValues = [0],
              decumulation.statePensionAnnualValues = [0]\<rparr>
       \<and> set (concat (decumulation.funds (simulateDecumulation fd startingPot))) = {0}
       \<and> set (decumulation.withdrawals (simulateDecumulation fd startingPot)) = {0}
       \<and> set (decumulation.annualWithdrawals (simulateDecumulation fd startingPot)) = {0}
       \<and> set (decumulation.statePensionMonthlyValues (simulateDecumulation fd startingPot)) = {0}
       \<and> set (decumulation.statePensionAnnualValues (simulateDecumulation fd startingPot)) = {0}"
proof -
  have "simulateDecumulation fd startingPot = degenerate"
    using assms
    by (auto simp: simulateDecumulation_def falsy_def isNaN_def leZero_def)
  then show ?thesis
    by (simp add: degenerate_def)
qed

theorem degenerate_starting_pot_witness:
  "decumulation.withdrawals (simulateDecumulation exampleForm Undefined) = [0]
   \<and> decumulation.withdrawals (simulateDecumulation exampleForm NaN) = [0]
   \<and> (0::real) \<le> 0 \<and> decumulation.withdrawals (simulateDecumulation exampleForm (Num 0)) = [0]
   \<and> (-5::real) \<le> 0
   \<and> decumulation.funds (simulateDecumulation exampleForm (Num (-5)))
       = [[0, 0, 0, 0, 0, 0, 0, 0, 0, 0, 0, 0]]"
  using degenerate_starting_pot [of Undefined exampleForm] degenerate_starting_pot [of NaN exampleForm]
    degenerate_starting_pot [of "Num 0" exampleForm] degenerate_starting_pot [of "Num (-5)" exampleForm]
  by (simp add: numeral_eq_Suc)

lemma parsesTo_late: "parsesTo digitsParseFloat digitsParseInt lateRaw lateForm"
  using parsesTo_example
  by (simp add: parsesTo_def lateRaw_def lateForm_def exampleRaw_def exampleForm_def
      digitsParseInt_def parseDigits_def digitValue_def)

lemma validateInputs_late:
  "validateInputs digitsParseFloat digitsParseInt lateRaw = (True, [])"
proof -
  have "filter (invalidNumber digitsParseFloat) (formFields lateRaw) = []"
    by (simp add: formFields_def lateRaw_def exampleRaw_def invalidNumber_def
        digitsParseFloat_def parseDigits_def digitValue_def)
  moreover have "validPlan lateForm"
    by (simp add: validPlan_def lateForm_def exampleForm_def)
  then have "rangeChecks digitsParseFloat digitsParseInt lateRaw = []"
    using rangeChecks_Nil_iff [OF parsesTo_late] by simp
  ultimately show ?thesis
    by (simp add: validateInputs_def checkNumbers_formFields)
qed

text \<open>
  C10. The validator puts no upper bound on the retirement age. For every form it
  accepts whose retirement age parses to 100 or more, and every positive starting pot,
  \<open>maxMonths \<le> 0\<close>, the loop condition fails at once, and the result holds one empty
  series for each fund and four more empty series: not the all-zero result of a
  non-positive pot.
\<close>

theorem late_retirement_empty_result:
  assumes "validateInputs parseFloat parseInt raw = (True, [])"
    and "parsesTo parseFloat parseInt raw fd"
    and "100 \<le> formData.retirementAge fd" and "0 < x"
  shows "maxMonths fd \<le> 0
       \<and> \<not> running fd (initialState fd x)
       \<and> simulateDecumulation fd (Num x)
           = \<lparr>decumulation.funds = replicate (nat (numFunds fd)) [],
              decumulation.withdrawals = [], decumulation.annualWithdrawals = [],
              decumulation.statePensionMonthlyValues = [],
              decumulation.statePensionAnnualValues = []\<rparr>
       \<and> 1 \<le> numFunds fd
       \<and> simulateDecumulation fd (Num x) \<noteq> degenerate"
proof -
  have max: "maxMonths fd \<le> 0"
    using assms(3) by (simp add: maxMonths_def)
  then have stop: "\<not> running fd (initialState fd x)"
    by (simp add: running_def)
  then have "decumLoop fd (initialState fd x) = initialState fd x"
    by (subst decumLoop.simps) simp
  then have res: "simulateDecumulation fd (Num x)
           = \<lparr>decumulation.funds = replicate (nat (numFunds fd)) [],
              decumulation.withdrawals = [], decumulation.annualWithdrawals = [],
              decumulation.statePensionMonthlyValues = [],
              decumulation.statePensionAnnualValues = []\<rparr>"
    by (simp add: simulateDecumulation_positive [OF assms(4)] resultOf_def initialState_def)
  have "validPlan fd"
    by (rule validateInputs_accepts [OF assms(1,2)])
  then have n: "1 \<le> numFunds fd"
    by (simp add: validPlan_def)
  show ?thesis
    using max stop n by (simp add: res degenerate_def)
qed

theorem late_retirement_empty_result_witness:
  "validateInputs digitsParseFloat digitsParseInt lateRaw = (True, [])
   \<and> parsesTo digitsParseFloat digitsParseInt lateRaw lateForm
   \<and> 100 \<le> formData.retirementAge lateForm \<and> (0::real) < 250000
   \<and> simulateDecumulation lateForm (Num 250000)
       = \<lparr>decumulation.funds = [[], [], []],
          decumulation.withdrawals = [], decumulation.annualWithdrawals = [],
          decumulation.statePensionMonthlyValues = [],
          decumulation.statePensionAnnualValues = []\<rparr>"
proof -
  have r: "100 \<le> formData.retirementAge lateForm" and n: "nat (numFunds lateForm) = 3"
    by (simp_all add: lateForm_def exampleForm_def)
  show ?thesis
    using late_retirement_empty_result [OF validateInputs_late parsesTo_late r, of 250000]
    by (simp add: validateInputs_late parsesTo_late r n numeral_3_eq_3)
qed

end
